theory Spec2Isabelle
  imports Complex_Main "HOL-Library.AList" "HOL-Library.Sublist"
begin

section \<open>Python values\<close>

text \<open>
  The exceptions the modelled code can raise. A function that can raise returns
  \<open>error + 'a\<close>, with \<open>Inl\<close> for the exception. \<open>LinAlgError\<close> carries the text
  that \<^verbatim>\<open>str(err)\<close> gives; \<open>OtherError\<close> stands for any exception of another class.
\<close>

datatype error =
    StopIteration
  | KeyError
  | AttributeError
  | TypeError
  | UnboundLocalError
  | IndexError
  | ValueError
  | LinAlgError string
  | OtherError string

text \<open>
  A Python \<^verbatim>\<open>dict\<close> keeps its keys in insertion order and the code depends on that
  order (the first key decides the encoding, the rows of the Bellman system follow the
  order of the keys), so a dict is an association list. A dict never holds a key twice;
  where a property depends on that, it assumes the keys of the input distinct.
  \<^verbatim>\<open>d.get(k)\<close> is \<open>dict_get\<close>, with \<open>None\<close> for Python's \<^verbatim>\<open>None\<close>;
  \<^verbatim>\<open>d.update({k: v})\<close> overwrites in place or appends. Floats are modelled as reals.
\<close>

type_synonym ('k, 'v) dict = "('k \<times> 'v) list"

definition dict_keys :: "('k, 'v) dict \<Rightarrow> 'k list" where
  "dict_keys d = map fst d"

definition dict_values :: "('k, 'v) dict \<Rightarrow> 'v list" where
  "dict_values d = map snd d"

definition dict_get :: "('k, 'v) dict \<Rightarrow> 'k \<Rightarrow> 'v option" where
  "dict_get d k = map_of d k"

definition dict_get_default :: "('k, 'v) dict \<Rightarrow> 'k \<Rightarrow> 'v \<Rightarrow> 'v" where
  "dict_get_default d k v = (case map_of d k of None \<Rightarrow> v | Some w \<Rightarrow> w)"

definition dict_update :: "('k, 'v) dict \<Rightarrow> 'k \<Rightarrow> 'v \<Rightarrow> ('k, 'v) dict" where
  "dict_update d k v = AList.update k v d"

text \<open>
  \<^verbatim>\<open>round(x, n)\<close>: the nearest multiple of \<open>10\<^sup>-\<^sup>n\<close>, a tie going to the even one.
\<close>

definition round_half_even :: "real \<Rightarrow> int" where
  "round_half_even x =
     (let f = \<lfloor>x\<rfloor>; d = x - of_int f
      in if d < 1 / 2 then f else if 1 / 2 < d then f + 1
         else if even f then f else f + 1)"

definition py_round :: "real \<Rightarrow> nat \<Rightarrow> real" where
  "py_round x n = of_int (round_half_even (x * 10 ^ n)) / 10 ^ n"

section \<open>mrp.py: the Markov reward process\<close>

text \<open>
  The two accepted encodings of the input, named as in \<^verbatim>\<open>src.type_vars\<close>:
  \<open>SSTff\<close> maps a source state to \<open>{destination: (probability, reward)}\<close>,
  \<open>STSff\<close> maps it to \<open>({destination: probability}, reward)\<close>. The annotation
  \<^verbatim>\<open>Union[SSTff, STSff]\<close> makes an input one or the other throughout.
\<close>

datatype 's mrp_input =
    SSTff "('s, ('s, real \<times> real) dict) dict"
  | STSff "('s, ('s, real) dict \<times> real) dict"

fun mrp_input_keys :: "'s mrp_input \<Rightarrow> 's list" where
  "mrp_input_keys (SSTff d) = dict_keys d"
| "mrp_input_keys (STSff d) = dict_keys d"

text \<open>
  \<^verbatim>\<open>MRP.input_type\<close>: \<^verbatim>\<open>next(iter(mrp_input))\<close> raises \<^verbatim>\<open>StopIteration\<close> on an
  empty dict; otherwise the first value is a dict exactly in the \<open>SSTff\<close> encoding.
\<close>

fun MRP_input_type :: "'s mrp_input \<Rightarrow> error + bool" where
  "MRP_input_type (SSTff []) = Inl StopIteration"
| "MRP_input_type (SSTff (kv # d)) = Inr True"
| "MRP_input_type (STSff []) = Inl StopIteration"
| "MRP_input_type (STSff (kv # d)) = Inr False"

text \<open>
  The test of \<^verbatim>\<open>MRP._categorize_states\<close> on one state. In the \<open>SSTff\<close> branch
  \<^verbatim>\<open>mrp_input.get(s).get(s)\<close> on a missing row is an attribute access on \<^verbatim>\<open>None\<close>;
  in the \<open>STSff\<close> branch \<^verbatim>\<open>mrp_input.get(s)[0]\<close> subscripts \<^verbatim>\<open>None\<close>.
\<close>

fun MRP_self_loop :: "'s mrp_input \<Rightarrow> 's \<Rightarrow> error + bool" where
  "MRP_self_loop (SSTff d) s =
     (case dict_get d s of
        None \<Rightarrow> Inl AttributeError
      | Some row \<Rightarrow>
          (case dict_get row s of
             None \<Rightarrow> Inr False
           | Some pr \<Rightarrow> Inr (fst pr = 1)))"
| "MRP_self_loop (STSff d) s =
     (case dict_get d s of
        None \<Rightarrow> Inl TypeError
      | Some row \<Rightarrow> Inr (dict_get_default (fst row) s 0 = 1))"

fun MRP_categorize_loop ::
  "'s mrp_input \<Rightarrow> 's list \<Rightarrow> 's list \<Rightarrow> 's list \<Rightarrow> error + ('s list \<times> 's list)" where
  "MRP_categorize_loop inp [] terminal non_terminal = Inr (terminal, non_terminal)"
| "MRP_categorize_loop inp (s # all_states) terminal non_terminal =
     (case MRP_self_loop inp s of
        Inl e \<Rightarrow> Inl e
      | Inr b \<Rightarrow>
          if b then MRP_categorize_loop inp all_states (terminal @ [s]) non_terminal
          else MRP_categorize_loop inp all_states terminal (non_terminal @ [s]))"

definition MRP_categorize_states :: "'s mrp_input \<Rightarrow> error + ('s list \<times> 's list)" where
  "MRP_categorize_states inp = MRP_categorize_loop inp (mrp_input_keys inp) [] []"

text \<open>
  \<^verbatim>\<open>MRP._assign_transition_matrix\<close>. The \<open>SSTff\<close> branch copies, for every
  non-terminal source, the probability and the reward of each destination of its row.
\<close>

fun SSTff_row_loop ::
  "('s, real \<times> real) dict \<Rightarrow> 's list \<Rightarrow> ('s, real) dict \<Rightarrow> ('s, real) dict
    \<Rightarrow> error + (('s, real) dict \<times> ('s, real) dict)" where
  "SSTff_row_loop row [] state_value reward_value = Inr (state_value, reward_value)"
| "SSTff_row_loop row (s2 # ss) state_value reward_value =
     (case dict_get row s2 of
        None \<Rightarrow> Inl TypeError
      | Some pr \<Rightarrow>
          SSTff_row_loop row ss (dict_update state_value s2 (fst pr))
            (dict_update reward_value s2 (snd pr)))"

fun SSTff_matrix_loop ::
  "('s, ('s, real \<times> real) dict) dict \<Rightarrow> 's list
    \<Rightarrow> ('s, ('s, real) dict) dict \<Rightarrow> ('s, ('s, real) dict) dict
    \<Rightarrow> error + (('s, ('s, real) dict) dict \<times> ('s, ('s, real) dict) dict)" where
  "SSTff_matrix_loop d [] stm rm = Inr (stm, rm)"
| "SSTff_matrix_loop d (s1 # ss) stm rm =
     (case dict_get d s1 of
        None \<Rightarrow> Inl TypeError
      | Some row \<Rightarrow>
          (case SSTff_row_loop row (dict_keys row) [] [] of
             Inl e \<Rightarrow> Inl e
           | Inr (state_value, reward_value) \<Rightarrow>
               SSTff_matrix_loop d ss (dict_update stm s1 state_value)
                 (dict_update rm s1 reward_value)))"

text \<open>
  The \<open>STSff\<close> branch stores the probability row as it is and builds the reward row
  with \<^verbatim>\<open>for s2 in mrp_input\<close>: one entry for every source key of the input, not for
  every destination of the row.
\<close>

fun STSff_reward_loop :: "real \<Rightarrow> 's list \<Rightarrow> ('s, real) dict \<Rightarrow> ('s, real) dict" where
  "STSff_reward_loop r [] reward_value = reward_value"
| "STSff_reward_loop r (s2 # ss) reward_value =
     STSff_reward_loop r ss (dict_update reward_value s2 r)"

fun STSff_matrix_loop ::
  "('s, ('s, real) dict \<times> real) dict \<Rightarrow> 's list
    \<Rightarrow> ('s, ('s, real) dict) dict \<Rightarrow> ('s, ('s, real) dict) dict
    \<Rightarrow> error + (('s, ('s, real) dict) dict \<times> ('s, ('s, real) dict) dict)" where
  "STSff_matrix_loop d [] stm rm = Inr (stm, rm)"
| "STSff_matrix_loop d (s1 # ss) stm rm =
     (case dict_get d s1 of
        None \<Rightarrow> Inl TypeError
      | Some row \<Rightarrow>
          STSff_matrix_loop d ss (dict_update stm s1 (fst row))
            (dict_update rm s1 (STSff_reward_loop (snd row) (dict_keys d) [])))"

fun MRP_assign_transition_matrix ::
  "'s list \<Rightarrow> 's mrp_input
    \<Rightarrow> error + (('s, ('s, real) dict) dict \<times> ('s, ('s, real) dict) dict)" where
  "MRP_assign_transition_matrix non_terminal (SSTff d) =
     SSTff_matrix_loop d non_terminal [] []"
| "MRP_assign_transition_matrix non_terminal (STSff d) =
     STSff_matrix_loop d non_terminal [] []"

text \<open>
  \<^verbatim>\<open>MRP._assign_reward_function\<close>: for every key of the reward matrix, the sum over
  the destinations of its transition row of probability times reward, rounded to five
  decimals.
\<close>

fun expected_reward_loop ::
  "('s, real) dict \<Rightarrow> ('s, real) dict option \<Rightarrow> 's list \<Rightarrow> real \<Rightarrow> error + real" where
  "expected_reward_loop srow rrow [] expected_reward = Inr expected_reward"
| "expected_reward_loop srow rrow (next_state # ns) expected_reward =
     (case rrow of
        None \<Rightarrow> Inl AttributeError
      | Some rr \<Rightarrow>
          expected_reward_loop srow rrow ns
            (expected_reward + dict_get_default srow next_state 0 * dict_get_default rr next_state 0))"

fun reward_function_loop ::
  "('s, ('s, real) dict) dict \<Rightarrow> ('s, ('s, real) dict) dict \<Rightarrow> 's list
    \<Rightarrow> ('s, real) dict \<Rightarrow> error + ('s, real) dict" where
  "reward_function_loop stm rm [] reward_list = Inr reward_list"
| "reward_function_loop stm rm (current_state # cs) reward_list =
     (case dict_get stm current_state of
        None \<Rightarrow> Inl TypeError
      | Some srow \<Rightarrow>
          (case expected_reward_loop srow (dict_get rm current_state) (dict_keys srow) 0 of
             Inl e \<Rightarrow> Inl e
           | Inr expected_reward \<Rightarrow>
               reward_function_loop stm rm cs
                 (dict_update reward_list current_state (py_round expected_reward 5))))"

definition MRP_assign_reward_function ::
  "('s, ('s, real) dict) dict \<Rightarrow> ('s, ('s, real) dict) dict \<Rightarrow> error + ('s, real) dict" where
  "MRP_assign_reward_function stm rm = reward_function_loop stm rm (dict_keys rm) []"

text \<open>
  \<^verbatim>\<open>MRP._assign_value_function\<close> hands the system \<open>(I - \<gamma> P) v = r\<close> to numpy.
  numpy is not part of the repository: its solver, its least-squares routine and the
  iteration of their result by \<^verbatim>\<open>np.nditer\<close> are parameters, each of which may raise.
\<close>

record linalg =
  np_linalg_solve :: "real list list \<Rightarrow> real list \<Rightarrow> error + real list"
  np_linalg_lstsq :: "real list list \<Rightarrow> real list \<Rightarrow> error + real list"
  np_nditer :: "real list \<Rightarrow> error + real list"

fun P_row :: "('s, real) dict option \<Rightarrow> 's list \<Rightarrow> error + real list" where
  "P_row srow [] = Inr []"
| "P_row srow (s2 # ss) =
     (case srow of
        None \<Rightarrow> Inl AttributeError
      | Some r \<Rightarrow>
          (case P_row srow ss of
             Inl e \<Rightarrow> Inl e
           | Inr ps \<Rightarrow> Inr (dict_get_default r s2 0 # ps)))"

fun P_rows ::
  "('s, ('s, real) dict) dict \<Rightarrow> 's list \<Rightarrow> 's list \<Rightarrow> error + real list list" where
  "P_rows stm non_terminal [] = Inr []"
| "P_rows stm non_terminal (s1 # ss) =
     (case P_row (dict_get stm s1) non_terminal of
        Inl e \<Rightarrow> Inl e
      | Inr r \<Rightarrow>
          (case P_rows stm non_terminal ss of
             Inl e \<Rightarrow> Inl e
           | Inr rs \<Rightarrow> Inr (r # rs)))"

definition np_eye :: "nat \<Rightarrow> real list list" where
  "np_eye n = map (\<lambda>i. map (\<lambda>j. if i = j then 1 else 0) [0..<n]) [0..<n]"

definition bellman_matrix :: "real \<Rightarrow> real list list \<Rightarrow> real list list" where
  "bellman_matrix gamma P =
     map2 (\<lambda>erow prow. map2 (\<lambda>x p. x - gamma * p) erow prow) (np_eye (length P)) P"

definition singular_warning :: string where
  "singular_warning =
     ''matrix not invertible, will use least square, but most likely result may be incorrect''"

text \<open>
  The \<^verbatim>\<open>try\<close> block. Only a \<^verbatim>\<open>LinAlgError\<close> is caught; when its text contains
  \<^verbatim>\<open>Singular matrix\<close> the warning is printed and the least-squares routine is run,
  otherwise it is raised again. The second component is what the block prints (the
  dumps of \<open>R\<close>, \<open>P\<close> and \<open>A\<close> that precede it are left out).
\<close>

definition solve_or_lstsq ::
  "linalg \<Rightarrow> real list list \<Rightarrow> real list \<Rightarrow> (error + real list) \<times> string list" where
  "solve_or_lstsq la A R =
     (case np_linalg_solve la A R of
        Inr V \<Rightarrow> (Inr V, [])
      | Inl err \<Rightarrow>
          (case err of
             LinAlgError msg \<Rightarrow>
               if sublist ''Singular matrix'' msg
               then (np_linalg_lstsq la A R, [singular_warning])
               else (Inl err, [])
           | _ \<Rightarrow> (Inl err, [])))"

fun dict_of_pairs :: "('k \<times> 'v) list \<Rightarrow> ('k, 'v) dict \<Rightarrow> ('k, 'v) dict" where
  "dict_of_pairs [] d = d"
| "dict_of_pairs (kv # kvs) d = dict_of_pairs kvs (dict_update d (fst kv) (snd kv))"

definition MRP_assign_value_function ::
  "linalg \<Rightarrow> real \<Rightarrow> 's list \<Rightarrow> ('s, ('s, real) dict) dict \<Rightarrow> ('s, real) dict
    \<Rightarrow> (error + ('s, real) dict) \<times> string list" where
  "MRP_assign_value_function la gamma non_terminal stm rf =
     (let R = dict_values rf in
      case P_rows stm non_terminal non_terminal of
        Inl e \<Rightarrow> (Inl e, [])
      | Inr P \<Rightarrow>
          (case solve_or_lstsq la (bellman_matrix gamma P) R of
             (Inl e, out) \<Rightarrow> (Inl e, out)
           | (Inr V, out) \<Rightarrow>
               (case np_nditer la V of
                  Inl e \<Rightarrow> (Inl e, out)
                | Inr vs \<Rightarrow> (Inr (dict_of_pairs (zip non_terminal vs) []), out))))"

record 's MRP =
  type_indicator :: bool
  gamma :: real
  terminal_states :: "'s list"
  non_terminal_states :: "'s list"
  state_transition_matrix :: "('s, ('s, real) dict) dict"
  reward_matrix :: "('s, ('s, real) dict) dict"
  reward_function :: "('s, real) dict"
  value_function :: "('s, real) dict"

text \<open>
  \<^verbatim>\<open>MRP.__init__\<close>: the result is the constructed object or the exception that left
  the constructor, together with what was printed.
\<close>

definition MRP_init ::
  "linalg \<Rightarrow> 's mrp_input \<Rightarrow> real \<Rightarrow> (error + 's MRP) \<times> string list" where
  "MRP_init la mrp_input discount_factor =
     (case MRP_input_type mrp_input of
        Inl e \<Rightarrow> (Inl e, [])
      | Inr ti \<Rightarrow>
     (case MRP_categorize_states mrp_input of
        Inl e \<Rightarrow> (Inl e, [])
      | Inr (ts, nts) \<Rightarrow>
     (case MRP_assign_transition_matrix nts mrp_input of
        Inl e \<Rightarrow> (Inl e, [])
      | Inr (stm, rm) \<Rightarrow>
     (case MRP_assign_reward_function stm rm of
        Inl e \<Rightarrow> (Inl e, [])
      | Inr rf \<Rightarrow>
     (case MRP_assign_value_function la discount_factor nts stm rf of
        (Inl e, out) \<Rightarrow> (Inl e, out)
      | (Inr vf, out) \<Rightarrow>
          (Inr \<lparr>type_indicator = ti, gamma = discount_factor, terminal_states = ts,
                non_terminal_states = nts, state_transition_matrix = stm,
                reward_matrix = rm, reward_function = rf, value_function = vf\<rparr>, out))))))"

definition MRP_get_expected_reward :: "'s MRP \<Rightarrow> 's \<Rightarrow> real option" where
  "MRP_get_expected_reward self state = dict_get (reward_function self) state"

definition MRP_get_value :: "'s MRP \<Rightarrow> 's \<Rightarrow> real option" where
  "MRP_get_value self state = dict_get (value_function self) state"

text \<open>
  \<^verbatim>\<open>MRP.get_random_sample\<close>. The two random draws are parameters: \<^verbatim>\<open>random.choice\<close>
  for the initial state and \<^verbatim>\<open>np.random.choice\<close> for the step, the latter indexed by
  the time step so that each draw is its own. The loop runs for as long as the drawn
  state is non-terminal, possibly forever: the sampler is a partial function, and
  \<open>None\<close> is the run that never returns.
\<close>

record 's rng =
  random_choice :: "'s list \<Rightarrow> error + 's"
  np_random_choice :: "nat \<Rightarrow> 's list \<Rightarrow> real list \<Rightarrow> error + 's"

partial_function (option) sample_loop ::
  "'s rng \<Rightarrow> 's MRP \<Rightarrow> 's \<Rightarrow> 's list \<Rightarrow> real \<Rightarrow> nat \<Rightarrow> (error + 's list \<times> real) option" where
  "sample_loop rnd self state sample g ts =
     (if state \<in> set (non_terminal_states self) then
        (case MRP_get_expected_reward self state of
           None \<Rightarrow> Some (Inl TypeError)
         | Some r \<Rightarrow>
             (case dict_get (state_transition_matrix self) state of
                None \<Rightarrow> Some (Inl AttributeError)
              | Some row \<Rightarrow>
                  (case np_random_choice rnd ts (dict_keys row) (dict_values row) of
                     Inl e \<Rightarrow> Some (Inl e)
                   | Inr state' \<Rightarrow>
                       sample_loop rnd self state' (sample @ [state])
                         (g + gamma self ^ ts * r) (Suc ts))))
      else Some (Inr (sample @ [state], g)))"

definition MRP_get_random_sample ::
  "'s rng \<Rightarrow> 's MRP \<Rightarrow> 's option \<Rightarrow> (error + 's list \<times> real) option" where
  "MRP_get_random_sample rnd self initial_state =
     (case initial_state of
        Some s \<Rightarrow> sample_loop rnd self s [] 0 0
      | None \<Rightarrow>
          (case random_choice rnd (non_terminal_states self @ terminal_states self) of
             Inl e \<Rightarrow> Some (Inl e)
           | Inr s \<Rightarrow> sample_loop rnd self s [] 0 0))"

section \<open>mdp.py: the Markov decision process\<close>

text \<open>
  The two encodings of the input, keyed by \<open>(state, action)\<close>.
\<close>

datatype ('s, 'a) mdp_input =
    SASTff "('s \<times> 'a, ('s, real \<times> real) dict) dict"
  | SATSff "('s \<times> 'a, ('s, real) dict \<times> real) dict"

fun mdp_input_keys :: "('s, 'a) mdp_input \<Rightarrow> ('s \<times> 'a) list" where
  "mdp_input_keys (SASTff d) = dict_keys d"
| "mdp_input_keys (SATSff d) = dict_keys d"

fun MDP_input_type :: "('s, 'a) mdp_input \<Rightarrow> error + bool" where
  "MDP_input_type (SASTff []) = Inl StopIteration"
| "MDP_input_type (SASTff (kv # d)) = Inr True"
| "MDP_input_type (SATSff []) = Inl StopIteration"
| "MDP_input_type (SATSff (kv # d)) = Inr False"

text \<open>
  \<^verbatim>\<open>MDP._get_all_states_and_actions\<close>: the states and the actions of the keys, each
  in the order of its first occurrence.
\<close>

fun states_actions_loop ::
  "('s \<times> 'a) list \<Rightarrow> 's list \<Rightarrow> 'a list \<Rightarrow> 's list \<times> 'a list" where
  "states_actions_loop [] state_list action_list = (state_list, action_list)"
| "states_actions_loop (sa_tuple # ks) state_list action_list =
     states_actions_loop ks
       (if fst sa_tuple \<notin> set state_list then state_list @ [fst sa_tuple] else state_list)
       (if snd sa_tuple \<notin> set action_list then action_list @ [snd sa_tuple] else action_list)"

definition MDP_get_all_states_and_actions ::
  "('s, 'a) mdp_input \<Rightarrow> 's list \<times> 'a list" where
  "MDP_get_all_states_and_actions inp = states_actions_loop (mdp_input_keys inp) [] []"

text \<open>
  \<^verbatim>\<open>MDP._categorize_states\<close>. For one key \<open>(s, a)\<close> the loop first walks the
  destinations of its entry: a destination that is in neither \<^verbatim>\<open>self.all_states\<close> nor
  \<^verbatim>\<open>temp\<close> is appended to \<^verbatim>\<open>temp\<close>. Then it tests whether the entry gives the step
  from \<open>s\<close> to \<open>s\<close> probability exactly 1 (\<open>MDP_self_loop\<close>); a key that fails the test
  moves its state from the terminal to the non-terminal list, if it is still in the
  former.
\<close>

fun MDP_destinations :: "('s, 'a) mdp_input \<Rightarrow> 's \<times> 'a \<Rightarrow> error + 's list" where
  "MDP_destinations (SASTff d) sa =
     (case dict_get d sa of
        None \<Rightarrow> Inl TypeError
      | Some row \<Rightarrow> Inr (dict_keys row))"
| "MDP_destinations (SATSff d) sa =
     (case dict_get d sa of
        None \<Rightarrow> Inl TypeError
      | Some row \<Rightarrow> Inr (dict_keys (fst row)))"

fun MDP_self_loop :: "('s, 'a) mdp_input \<Rightarrow> 's \<times> 'a \<Rightarrow> error + bool" where
  "MDP_self_loop (SASTff d) sa =
     (case dict_get d sa of
        None \<Rightarrow> Inl AttributeError
      | Some row \<Rightarrow>
          (case dict_get row (fst sa) of
             None \<Rightarrow> Inr False
           | Some pr \<Rightarrow> Inr (fst pr = 1)))"
| "MDP_self_loop (SATSff d) sa =
     (case dict_get d sa of
        None \<Rightarrow> Inl TypeError
      | Some row \<Rightarrow> Inr (dict_get_default (fst row) (fst sa) 0 = 1))"

fun temp_loop :: "'s list \<Rightarrow> 's list \<Rightarrow> 's list \<Rightarrow> 's list" where
  "temp_loop all_states [] temp = temp"
| "temp_loop all_states (s1 # ss) temp =
     temp_loop all_states ss
       (if s1 \<notin> set all_states \<and> s1 \<notin> set temp then temp @ [s1] else temp)"

fun MDP_categorize_loop ::
  "('s, 'a) mdp_input \<Rightarrow> 's list \<Rightarrow> ('s \<times> 'a) list \<Rightarrow> 's list \<Rightarrow> 's list \<Rightarrow> 's list
    \<Rightarrow> error + ('s list \<times> 's list \<times> 's list)" where
  "MDP_categorize_loop inp all_states [] terminal non_terminal temp =
     Inr (terminal, non_terminal, temp)"
| "MDP_categorize_loop inp all_states (sa # ks) terminal non_terminal temp =
     (case MDP_destinations inp sa of
        Inl e \<Rightarrow> Inl e
      | Inr dests \<Rightarrow>
          (case MDP_self_loop inp sa of
             Inl e \<Rightarrow> Inl e
           | Inr self_loop \<Rightarrow>
               if \<not> self_loop \<and> fst sa \<in> set terminal
               then MDP_categorize_loop inp all_states ks (remove1 (fst sa) terminal)
                      (non_terminal @ [fst sa]) (temp_loop all_states dests temp)
               else MDP_categorize_loop inp all_states ks terminal non_terminal
                      (temp_loop all_states dests temp)))"

text \<open>
  The method also extends \<^verbatim>\<open>self.all_states\<close> in place: the result is the new
  \<^verbatim>\<open>all_states\<close> with the two lists it returns.
\<close>

definition MDP_categorize_states ::
  "'s list \<Rightarrow> ('s, 'a) mdp_input \<Rightarrow> error + ('s list \<times> 's list \<times> 's list)" where
  "MDP_categorize_states all_states inp =
     (case MDP_categorize_loop inp all_states (mdp_input_keys inp) all_states [] [] of
        Inl e \<Rightarrow> Inl e
      | Inr (terminal, non_terminal, temp) \<Rightarrow>
          Inr (all_states @ temp, terminal @ temp, non_terminal))"

text \<open>
  The matrices of the MDP are keyed by the 2-tuple \<open>(s, a)\<close>, and \<^verbatim>\<open>get_mrp\<close> reads
  them with the 3-tuple \<open>(s, a, s1)\<close>. Python tuples of both lengths are values of one
  type, and tuples of different length are never equal.
\<close>

datatype ('s, 'a) tuple_key = Tuple2 's 'a | Tuple3 's 'a 's

type_synonym ('s, 'a) SASf = "(('s, 'a) tuple_key, ('s, real) dict) dict"

text \<open>
  \<^verbatim>\<open>MDP._assign_transition_matrix\<close>, \<open>SASTff\<close> branch. The two \<^verbatim>\<open>update\<close> calls stand
  outside the \<^verbatim>\<open>if\<close>: they run for every key, with the values that \<^verbatim>\<open>state_value\<close>
  and \<^verbatim>\<open>reward_value\<close> hold then. The two local variables are bound by the first
  key with a non-terminal state (\<open>None\<close> before that) and keep their last value over
  the keys with a terminal state.
\<close>

fun SASTff_assign_loop ::
  "('s \<times> 'a, ('s, real \<times> real) dict) dict \<Rightarrow> 's list \<Rightarrow> ('s \<times> 'a) list
    \<Rightarrow> (('s, real) dict \<times> ('s, real) dict) option
    \<Rightarrow> ('s, 'a) SASf \<Rightarrow> ('s, 'a) SASf \<Rightarrow> error + (('s, 'a) SASf \<times> ('s, 'a) SASf)" where
  "SASTff_assign_loop d terminal [] locals stm rm = Inr (stm, rm)"
| "SASTff_assign_loop d terminal (sa_tuple # ks) locals stm rm =
     (case (if fst sa_tuple \<notin> set terminal
            then (case dict_get d sa_tuple of
                    None \<Rightarrow> Inl TypeError
                  | Some row \<Rightarrow>
                      (case SSTff_row_loop row (dict_keys row) [] [] of
                         Inl e \<Rightarrow> Inl e
                       | Inr vals \<Rightarrow> Inr (Some vals)))
            else Inr locals) of
        Inl e \<Rightarrow> Inl e
      | Inr None \<Rightarrow> Inl UnboundLocalError
      | Inr (Some (state_value, reward_value)) \<Rightarrow>
          SASTff_assign_loop d terminal ks (Some (state_value, reward_value))
            (dict_update stm (Tuple2 (fst sa_tuple) (snd sa_tuple)) state_value)
            (dict_update rm (Tuple2 (fst sa_tuple) (snd sa_tuple)) reward_value))"

text \<open>
  \<open>SATSff\<close> branch: here the \<^verbatim>\<open>update\<close> calls stand inside the \<^verbatim>\<open>if\<close>, and the reward
  row has one entry for every destination of the entry.
\<close>

fun SATSff_assign_loop ::
  "('s \<times> 'a, ('s, real) dict \<times> real) dict \<Rightarrow> 's list \<Rightarrow> ('s \<times> 'a) list
    \<Rightarrow> ('s, 'a) SASf \<Rightarrow> ('s, 'a) SASf \<Rightarrow> error + (('s, 'a) SASf \<times> ('s, 'a) SASf)" where
  "SATSff_assign_loop d terminal [] stm rm = Inr (stm, rm)"
| "SATSff_assign_loop d terminal (sa_tuple # ks) stm rm =
     (if fst sa_tuple \<notin> set terminal
      then (case dict_get d sa_tuple of
              None \<Rightarrow> Inl TypeError
            | Some row \<Rightarrow>
                SATSff_assign_loop d terminal ks
                  (dict_update stm (Tuple2 (fst sa_tuple) (snd sa_tuple)) (fst row))
                  (dict_update rm (Tuple2 (fst sa_tuple) (snd sa_tuple))
                     (STSff_reward_loop (snd row) (dict_keys (fst row)) [])))
      else SATSff_assign_loop d terminal ks stm rm)"

fun MDP_assign_transition_matrix ::
  "'s list \<Rightarrow> ('s, 'a) mdp_input \<Rightarrow> error + (('s, 'a) SASf \<times> ('s, 'a) SASf)" where
  "MDP_assign_transition_matrix terminal (SASTff d) =
     SASTff_assign_loop d terminal (dict_keys d) None [] []"
| "MDP_assign_transition_matrix terminal (SATSff d) =
     SATSff_assign_loop d terminal (dict_keys d) [] []"

record ('s, 'a) MDP =
  mdp_type_indicator :: bool
  mdp_gamma :: real
  all_states :: "'s list"
  all_actions :: "'a list"
  mdp_terminal_states :: "'s list"
  mdp_non_terminal_states :: "'s list"
  transition_matrix :: "('s, 'a) SASf \<times> ('s, 'a) SASf"

definition MDP_init :: "('s, 'a) mdp_input \<Rightarrow> real \<Rightarrow> error + ('s, 'a) MDP" where
  "MDP_init mdp_input discount_factor =
     (case MDP_input_type mdp_input of
        Inl e \<Rightarrow> Inl e
      | Inr ti \<Rightarrow>
     (case MDP_get_all_states_and_actions mdp_input of
        (states, actions) \<Rightarrow>
     (case MDP_categorize_states states mdp_input of
        Inl e \<Rightarrow> Inl e
      | Inr (states', ts, nts) \<Rightarrow>
     (case MDP_assign_transition_matrix ts mdp_input of
        Inl e \<Rightarrow> Inl e
      | Inr tm \<Rightarrow>
          Inr \<lparr>mdp_type_indicator = ti, mdp_gamma = discount_factor, all_states = states',
               all_actions = actions, mdp_terminal_states = ts,
               mdp_non_terminal_states = nts, transition_matrix = tm\<rparr>))))"

text \<open>
  \<^verbatim>\<open>MDP.get_mrp\<close>. \<^verbatim>\<open>matrix[(s, a, s1)]\<close> is a subscript, which raises \<^verbatim>\<open>KeyError\<close>
  on a missing key; it is evaluated before the policy is called. A value it finds is a
  row (a dict), and a dict times a float is a \<^verbatim>\<open>TypeError\<close>. The policy class is not
  in the sources: \<^verbatim>\<open>get_state_action_probability\<close> is a parameter that may raise.
\<close>

definition dict_getitem :: "('k, 'v) dict \<Rightarrow> 'k \<Rightarrow> error + 'v" where
  "dict_getitem d k = (case map_of d k of None \<Rightarrow> Inl KeyError | Some v \<Rightarrow> Inr v)"

fun weighted_terms ::
  "('s, 'a) SASf \<Rightarrow> ('s \<Rightarrow> 'a \<Rightarrow> error + real) \<Rightarrow> 's \<Rightarrow> 's \<Rightarrow> 'a list \<Rightarrow> error + real list" where
  "weighted_terms matrix policy s s1 [] = Inr []"
| "weighted_terms matrix policy s s1 (a # as) =
     (case dict_getitem matrix (Tuple3 s a s1) of
        Inl e \<Rightarrow> Inl e
      | Inr row \<Rightarrow>
          (case policy s a of
             Inl e \<Rightarrow> Inl e
           | Inr p \<Rightarrow> Inl TypeError))"

fun get_mrp_inner ::
  "('s, 'a) MDP \<Rightarrow> ('s \<Rightarrow> 'a \<Rightarrow> error + real) \<Rightarrow> 's \<Rightarrow> 's list
    \<Rightarrow> ('s \<times> 's, real) dict \<Rightarrow> ('s \<times> 's, real) dict
    \<Rightarrow> error + (('s \<times> 's, real) dict \<times> ('s \<times> 's, real) dict)" where
  "get_mrp_inner self policy s [] mrp_stm mrp_rm = Inr (mrp_stm, mrp_rm)"
| "get_mrp_inner self policy s (s1 # ss) mrp_stm mrp_rm =
     (case weighted_terms (fst (transition_matrix self)) policy s s1 (all_actions self) of
        Inl e \<Rightarrow> Inl e
      | Inr ps \<Rightarrow>
          (case weighted_terms (snd (transition_matrix self)) policy s s1 (all_actions self) of
             Inl e \<Rightarrow> Inl e
           | Inr rs \<Rightarrow>
               get_mrp_inner self policy s ss (dict_update mrp_stm (s, s1) (sum_list ps))
                 (dict_update mrp_rm (s, s1) (sum_list rs))))"

fun get_mrp_outer ::
  "('s, 'a) MDP \<Rightarrow> ('s \<Rightarrow> 'a \<Rightarrow> error + real) \<Rightarrow> 's list
    \<Rightarrow> ('s \<times> 's, real) dict \<Rightarrow> ('s \<times> 's, real) dict
    \<Rightarrow> error + (('s \<times> 's, real) dict \<times> ('s \<times> 's, real) dict)" where
  "get_mrp_outer self policy [] mrp_stm mrp_rm = Inr (mrp_stm, mrp_rm)"
| "get_mrp_outer self policy (s # ss) mrp_stm mrp_rm =
     (case get_mrp_inner self policy s (all_states self) mrp_stm mrp_rm of
        Inl e \<Rightarrow> Inl e
      | Inr (mrp_stm', mrp_rm') \<Rightarrow> get_mrp_outer self policy ss mrp_stm' mrp_rm')"

definition MDP_get_mrp ::
  "('s, 'a) MDP \<Rightarrow> ('s \<Rightarrow> 'a \<Rightarrow> error + real)
    \<Rightarrow> error + (('s \<times> 's, real) dict \<times> ('s \<times> 's, real) dict)" where
  "MDP_get_mrp self policy = get_mrp_outer self policy (all_states self) [] []"

text \<open>
  \<^verbatim>\<open>MDP.query_Pr\<close>: \<^verbatim>\<open>.get((s, a))\<close> gives \<^verbatim>\<open>None\<close> on a missing key, and the second
  \<^verbatim>\<open>.get\<close> is then an attribute access on \<^verbatim>\<open>None\<close>.
\<close>

definition MDP_query_Pr :: "('s, 'a) MDP \<Rightarrow> 's \<Rightarrow> 'a \<Rightarrow> 's \<Rightarrow> error + real option" where
  "MDP_query_Pr self s a s1 =
     (case dict_get (fst (transition_matrix self)) (Tuple2 s a) of
        None \<Rightarrow> Inl AttributeError
      | Some row \<Rightarrow> Inr (dict_get row s1))"

section \<open>Concrete inputs\<close>

text \<open>
  To run the constructor on a concrete input the numpy routines need values. On a
  system with one unknown, \<open>a v = r\<close>, they are known in closed form: the solver
  divides, or raises \<^verbatim>\<open>LinAlgError("Singular matrix")\<close> when \<open>a = 0\<close>; the least-squares
  solution of minimal norm is \<open>r / a\<close>, or \<open>0\<close> when \<open>a = 0\<close>. \<open>numpy_dim1\<close> is numpy on such
  systems and nothing else: on every other shape it answers with an error of its own.
\<close>

definition numpy_dim1 :: linalg where
  "numpy_dim1 =
     \<lparr>np_linalg_solve = (\<lambda>A R.
        case (A, R) of
          ([[a]], [r]) \<Rightarrow> if a = 0 then Inl (LinAlgError ''Singular matrix'') else Inr [r / a]
        | _ \<Rightarrow> Inl (OtherError ''numpy_dim1'')),
      np_linalg_lstsq = (\<lambda>A R.
        case (A, R) of
          ([[a]], [r]) \<Rightarrow> Inr [if a = 0 then 0 else r / a]
        | _ \<Rightarrow> Inl (OtherError ''numpy_dim1'')),
      np_nditer = (\<lambda>V. case V of [v] \<Rightarrow> Inr [v] | _ \<Rightarrow> Inl (OtherError ''numpy_dim1''))\<rparr>"

text \<open>
  The two inputs of the \<^verbatim>\<open>__main__\<close> block of \<^verbatim>\<open>mdp.py\<close>.
\<close>

definition mdp_input1 :: "(nat, string) mdp_input" where
  "mdp_input1 = SATSff
     [((1, ''a''), ([(1, 0.3), (2, 0.6), (3, 0.1)], 5.0)),
      ((1, ''b''), ([(2, 0.3), (3, 0.7)], 2.8)),
      ((1, ''c''), ([(1, 0.2), (2, 0.4), (3, 0.4)], -7.2)),
      ((2, ''a''), ([(1, 0.3), (2, 0.6), (3, 0.1)], 5.0)),
      ((2, ''c''), ([(1, 0.2), (2, 0.4), (3, 0.4)], -7.2)),
      ((3, ''a''), ([(3, 1.0)], 0.0)),
      ((3, ''b''), ([(3, 1.0)], 0.0))]"

definition mdp_input2 :: "(nat, string) mdp_input" where
  "mdp_input2 = SASTff
     [((1, ''a''), [(1, (0.3, 5.0)), (2, (0.6, 5.0)), (3, (0.1, 5.0))]),
      ((1, ''b''), [(2, (0.3, 2.8)), (3, (0.7, 2.8))]),
      ((1, ''c''), [(1, (0.2, -7.2)), (2, (0.4, -7.2)), (3, (0.4, -7.2))]),
      ((2, ''a''), [(1, (0.3, 5.0)), (2, (0.6, 5.0)), (3, (0.1, 5.0))]),
      ((2, ''c''), [(1, (0.2, -7.2)), (2, (0.4, -7.2)), (3, (0.4, -7.2))]),
      ((3, ''a''), [(3, (1.0, 0.0))]),
      ((3, ''b''), [(3, (1.0, 0.0))])]"

text \<open>
  A process with the states 1 and 2 in both encodings of the MRP: from 1 the step goes
  to 2 with reward 5, and 2 is absorbing. In the second pair the successor 3 is named
  only as a destination.
\<close>

definition mrp_fine :: "nat mrp_input" where
  "mrp_fine = SSTff [(1, [(2, (1, 5))]), (2, [(2, (1, 0))])]"

definition mrp_shared :: "nat mrp_input" where
  "mrp_shared = STSff [(1, ([(2, 1)], 5)), (2, ([(2, 1)], 0))]"

definition mrp_fine_open :: "nat mrp_input" where
  "mrp_fine_open = SSTff [(1, [(3, (1, 5))])]"

definition mrp_shared_open :: "nat mrp_input" where
  "mrp_shared_open = STSff [(1, ([(3, 1)], 5))]"

text \<open>
  The Student MDP that the \<^verbatim>\<open>__main__\<close> block of \<^verbatim>\<open>mdp.py\<close> constructs.
\<close>

definition student_mdp :: "(string, string) mdp_input" where
  "student_mdp = SATSff
     [((''Class 1'', ''Study''), ([(''Class 2'', 1.0)], -2)),
      ((''Class 1'', ''Facebook''), ([(''Facebook'', 1.0)], -1)),
      ((''Facebook'', ''Facebook''), ([(''Facebook'', 1.0)], -1)),
      ((''Facebook'', ''quit''), ([(''Class 1'', 1.0)], 0)),
      ((''Class 2'', ''Study''), ([(''Class 3'', 1.0)], -2)),
      ((''Class 2'', ''Sleep''), ([(''Sleep'', 1.0)], 0)),
      ((''Class 3'', ''Study''), ([(''Sleep'', 1.0)], 10)),
      ((''Class 3'', ''Pub''), ([(''Class 1'', 0.2), (''Class 2'', 0.4), (''Class 3'', 0.4)], 1))]"

text \<open>
  The states that an input names as a destination of some entry.
\<close>

fun mrp_input_destinations :: "'s mrp_input \<Rightarrow> 's list" where
  "mrp_input_destinations (SSTff d) = concat (map (\<lambda>kv. dict_keys (snd kv)) d)"
| "mrp_input_destinations (STSff d) = concat (map (\<lambda>kv. dict_keys (fst (snd kv))) d)"

fun mdp_input_destinations :: "('s, 'a) mdp_input \<Rightarrow> 's list" where
  "mdp_input_destinations (SASTff d) = concat (map (\<lambda>kv. dict_keys (snd kv)) d)"
| "mdp_input_destinations (SATSff d) = concat (map (\<lambda>kv. dict_keys (fst (snd kv))) d)"

text \<open>
  An MRP whose Bellman matrix is singular: with \<open>\<gamma> = 2\<close> and \<open>P = (1/2)\<close> the matrix
  \<open>I - \<gamma> P\<close> is \<open>(0)\<close>. And a numpy whose solver fails with an error of another class.
\<close>

definition mrp_singular :: "nat mrp_input" where
  "mrp_singular = SSTff [(1, [(1, (1 / 2, 1)), (2, (1 / 2, 1))])]"

definition numpy_out_of_memory :: linalg where
  "numpy_out_of_memory =
     numpy_dim1\<lparr>np_linalg_solve := (\<lambda>A R. Inl (OtherError ''MemoryError''))\<rparr>"

text \<open>
  A source of draws that always picks the first candidate.
\<close>

definition first_choice :: "'s rng" where
  "first_choice =
     \<lparr>random_choice = (\<lambda>xs. case xs of [] \<Rightarrow> Inl IndexError | x # _ \<Rightarrow> Inr x),
      np_random_choice = (\<lambda>ts xs ps. case xs of [] \<Rightarrow> Inl ValueError | x # _ \<Rightarrow> Inr x)\<rparr>"

section \<open>Facts about dicts\<close>

lemma dict_get_update:
  "dict_get (dict_update d k v) k' = (if k' = k then Some v else dict_get d k')"
  by (simp add: dict_get_def dict_update_def update_conv')

lemma dict_keys_update: "set (dict_keys (dict_update d k v)) = insert k (set (dict_keys d))"
  by (auto simp: dict_keys_def dict_update_def update_keys)

lemma dict_get_None_iff: "dict_get d k = None \<longleftrightarrow> k \<notin> set (dict_keys d)"
  by (simp add: dict_get_def dict_keys_def map_of_eq_None_iff)

lemma dict_keys_Nil [simp]: "dict_keys [] = []"
  by (simp add: dict_keys_def)

lemma dict_of_pairs_keys:
  "set (dict_keys (dict_of_pairs kvs d)) = set (dict_keys d) \<union> fst ` set kvs"
  by (induction kvs arbitrary: d) (auto simp: dict_keys_update)

section \<open>The constructor of the MRP\<close>

lemma MRP_categorize_loop_result:
  "MRP_categorize_loop inp ks t nt = Inr (t', nt')
    \<Longrightarrow> t' = t @ filter (\<lambda>s. MRP_self_loop inp s = Inr True) ks \<and>
        nt' = nt @ filter (\<lambda>s. MRP_self_loop inp s = Inr False) ks"
proof (induction ks arbitrary: t nt)
  case Nil
  then show ?case by simp
next
  case (Cons s ks)
  show ?case
  proof (cases "MRP_self_loop inp s")
    case (Inl e)
    with Cons.prems show ?thesis by simp
  next
    case (Inr b)
    with Cons.prems Cons.IH [of "t @ [s]" nt] Cons.IH [of t "nt @ [s]"] show ?thesis
      by (cases b) simp_all
  qed
qed

lemma MRP_categorize_loop_cover:
  "MRP_categorize_loop inp ks t nt = Inr (t', nt')
    \<Longrightarrow> set t' \<union> set nt' = set t \<union> set nt \<union> set ks"
proof (induction ks arbitrary: t nt)
  case Nil
  then show ?case by simp
next
  case (Cons s ks)
  show ?case
  proof (cases "MRP_self_loop inp s")
    case (Inl e)
    with Cons.prems show ?thesis by simp
  next
    case (Inr b)
    with Cons.prems Cons.IH [of "t @ [s]" nt] Cons.IH [of t "nt @ [s]"] show ?thesis
      by (cases b) auto
  qed
qed

lemma MRP_categorize_states_partition:
  assumes "MRP_categorize_states inp = Inr (ts, nts)"
  shows "set ts \<inter> set nts = {}"
    and "set ts \<union> set nts = set (mrp_input_keys inp)"
    and "distinct (mrp_input_keys inp) \<Longrightarrow> distinct ts \<and> distinct nts"
proof -
  from assms have r: "ts = filter (\<lambda>s. MRP_self_loop inp s = Inr True) (mrp_input_keys inp)"
    "nts = filter (\<lambda>s. MRP_self_loop inp s = Inr False) (mrp_input_keys inp)"
    unfolding MRP_categorize_states_def by (auto dest: MRP_categorize_loop_result)
  show "set ts \<inter> set nts = {}" unfolding r by auto
  from assms show "set ts \<union> set nts = set (mrp_input_keys inp)"
    unfolding MRP_categorize_states_def
    using MRP_categorize_loop_cover [of inp "mrp_input_keys inp" "[]" "[]" ts nts] by simp
  show "distinct (mrp_input_keys inp) \<Longrightarrow> distinct ts \<and> distinct nts"
    unfolding r by simp
qed

lemma MRP_init_fields:
  assumes "fst (MRP_init la inp g) = Inr m"
  shows "MRP_categorize_states inp = Inr (terminal_states m, non_terminal_states m) \<and>
     MRP_assign_transition_matrix (non_terminal_states m) inp
       = Inr (state_transition_matrix m, reward_matrix m) \<and>
     MRP_assign_reward_function (state_transition_matrix m) (reward_matrix m)
       = Inr (reward_function m) \<and>
     fst (MRP_assign_value_function la g (non_terminal_states m) (state_transition_matrix m)
       (reward_function m)) = Inr (value_function m)"
  using assms
  by (auto simp: MRP_init_def split: sum.splits prod.splits)

lemma MRP_assign_value_function_keys:
  assumes "fst (MRP_assign_value_function la g nts stm rf) = Inr vf"
  shows "set (dict_keys vf) \<subseteq> set nts"
proof -
  from assms obtain vs where "vf = dict_of_pairs (zip nts vs) []"
    by (auto simp: MRP_assign_value_function_def Let_def split: sum.splits prod.splits)
  then have "set (dict_keys vf) = fst ` set (zip nts vs)"
    by (simp add: dict_of_pairs_keys)
  then show ?thesis
    by (auto dest: set_zip_leftD)
qed

lemma reward_function_loop_keys:
  "reward_function_loop stm rm cs rl = Inr rl'
    \<Longrightarrow> set (dict_keys rl') = set (dict_keys rl) \<union> set cs"
proof (induction cs arbitrary: rl)
  case Nil
  then show ?case by simp
next
  case (Cons c cs)
  from Cons.prems obtain srow where srow: "dict_get stm c = Some srow"
    by (cases "dict_get stm c") simp_all
  from Cons.prems srow obtain x where
    x: "expected_reward_loop srow (dict_get rm c) (dict_keys srow) 0 = Inr x"
    by (cases "expected_reward_loop srow (dict_get rm c) (dict_keys srow) 0") simp_all
  from Cons.prems srow x
  have "reward_function_loop stm rm cs (dict_update rl c (py_round x 5)) = Inr rl'"
    by simp
  from Cons.IH [OF this] show ?case
    by (simp add: dict_keys_update)
qed

lemma SSTff_matrix_loop_keys:
  "SSTff_matrix_loop d ks stm rm = Inr (stm', rm')
    \<Longrightarrow> set (dict_keys stm') = set (dict_keys stm) \<union> set ks \<and>
        set (dict_keys rm') = set (dict_keys rm) \<union> set ks"
proof (induction ks arbitrary: stm rm)
  case Nil
  then show ?case by simp
next
  case (Cons k ks)
  from Cons.prems obtain row where row: "dict_get d k = Some row"
    by (cases "dict_get d k") simp_all
  from Cons.prems row obtain sv rv where
    x: "SSTff_row_loop row (dict_keys row) [] [] = Inr (sv, rv)"
    by (cases "SSTff_row_loop row (dict_keys row) [] []") auto
  from Cons.prems row x
  have "SSTff_matrix_loop d ks (dict_update stm k sv) (dict_update rm k rv) = Inr (stm', rm')"
    by simp
  from Cons.IH [OF this] show ?case
    by (simp add: dict_keys_update)
qed

lemma STSff_matrix_loop_keys:
  "STSff_matrix_loop d ks stm rm = Inr (stm', rm')
    \<Longrightarrow> set (dict_keys stm') = set (dict_keys stm) \<union> set ks \<and>
        set (dict_keys rm') = set (dict_keys rm) \<union> set ks"
proof (induction ks arbitrary: stm rm)
  case Nil
  then show ?case by simp
next
  case (Cons k ks)
  from Cons.prems obtain row where row: "dict_get d k = Some row"
    by (cases "dict_get d k") simp_all
  from Cons.prems row
  have "STSff_matrix_loop d ks (dict_update stm k (fst row))
      (dict_update rm k (STSff_reward_loop (snd row) (dict_keys d) [])) = Inr (stm', rm')"
    by simp
  from Cons.IH [OF this] show ?case
    by (simp add: dict_keys_update)
qed

lemma MRP_assign_transition_matrix_keys:
  "MRP_assign_transition_matrix nts inp = Inr (stm, rm)
    \<Longrightarrow> set (dict_keys stm) = set nts \<and> set (dict_keys rm) = set nts"
  using SSTff_matrix_loop_keys [of _ nts "[]" "[]" stm rm]
    STSff_matrix_loop_keys [of _ nts "[]" "[]" stm rm]
  by (cases inp) simp_all

lemma MRP_init_keys:
  assumes "fst (MRP_init la inp g) = Inr m"
  shows "set (dict_keys (state_transition_matrix m)) = set (non_terminal_states m)"
    and "set (dict_keys (reward_matrix m)) = set (non_terminal_states m)"
    and "set (dict_keys (reward_function m)) = set (non_terminal_states m)"
    and "set (dict_keys (value_function m)) \<subseteq> set (non_terminal_states m)"
proof -
  note f = MRP_init_fields [OF assms]
  from f MRP_assign_transition_matrix_keys [of "non_terminal_states m" inp
      "state_transition_matrix m" "reward_matrix m"]
  show k: "set (dict_keys (state_transition_matrix m)) = set (non_terminal_states m)"
    "set (dict_keys (reward_matrix m)) = set (non_terminal_states m)"
    by simp_all
  from f have "reward_function_loop (state_transition_matrix m) (reward_matrix m)
      (dict_keys (reward_matrix m)) [] = Inr (reward_function m)"
    by (simp add: MRP_assign_reward_function_def)
  from reward_function_loop_keys [OF this] k
  show "set (dict_keys (reward_function m)) = set (non_terminal_states m)"
    by simp
  from f have "fst (MRP_assign_value_function la g (non_terminal_states m)
      (state_transition_matrix m) (reward_function m)) = Inr (value_function m)"
    by simp
  then show "set (dict_keys (value_function m)) \<subseteq> set (non_terminal_states m)"
    by (rule MRP_assign_value_function_keys)
qed

lemma MRP_terminal_no_source_key:
  assumes "fst (MRP_init la inp g) = Inr m" and "s \<in> set (terminal_states m)"
  shows "s \<notin> set (dict_keys (state_transition_matrix m)) \<and>
         s \<notin> set (dict_keys (reward_matrix m))"
proof -
  from MRP_init_fields [OF assms(1)]
  have "MRP_categorize_states inp = Inr (terminal_states m, non_terminal_states m)" by simp
  from MRP_categorize_states_partition(1) [OF this] assms(2)
  have "s \<notin> set (non_terminal_states m)" by auto
  with MRP_init_keys(1,2) [OF assms(1)] show ?thesis by simp
qed

lemma sample_loop_terminal:
  "state \<notin> set (non_terminal_states self)
    \<Longrightarrow> sample_loop rnd self state sample g ts = Some (Inr (sample @ [state], g))"
  by (subst sample_loop.simps) simp

section \<open>The constructor of the MDP\<close>

lemma states_actions_loop_nonempty:
  "states_actions_loop ks sl al = (sl', al') \<Longrightarrow> ks \<noteq> [] \<or> (sl \<noteq> [] \<and> al \<noteq> [])
    \<Longrightarrow> sl' \<noteq> [] \<and> al' \<noteq> []"
proof (induction ks arbitrary: sl al)
  case Nil
  then show ?case by simp
next
  case (Cons k ks)
  from Cons.prems(1) show ?case
    by (simp only: states_actions_loop.simps) (rule Cons.IH, assumption, auto)
qed

lemma states_actions_loop_states:
  "states_actions_loop ks sl al = (sl', al') \<Longrightarrow> distinct sl
    \<Longrightarrow> distinct sl' \<and> set sl' = set sl \<union> fst ` set ks"
proof (induction ks arbitrary: sl al)
  case Nil
  then show ?case by simp
next
  case (Cons k ks)
  from Cons.prems show ?case
    by (auto simp del: fun_upd_apply dest!: Cons.IH split: if_splits)
qed

lemma temp_loop_props:
  "distinct temp \<Longrightarrow> set temp \<inter> set all = {}
    \<Longrightarrow> distinct (temp_loop all ds temp) \<and>
        set (temp_loop all ds temp) = set temp \<union> (set ds - set all)"
proof (induction ds arbitrary: temp)
  case Nil
  then show ?case by simp
next
  case (Cons d ds)
  from Cons.prems Cons.IH [of "temp @ [d]"] Cons.IH [of temp] show ?case
    by (cases "d \<notin> set all \<and> d \<notin> set temp") auto
qed

lemma MDP_categorize_loop_partition:
  "MDP_categorize_loop inp all ks t nt tmp = Inr (t', nt', tmp')
    \<Longrightarrow> distinct t \<Longrightarrow> distinct nt \<Longrightarrow> set t \<inter> set nt = {}
    \<Longrightarrow> distinct t' \<and> distinct nt' \<and> set t' \<inter> set nt' = {} \<and>
        set t' \<union> set nt' = set t \<union> set nt"
proof (induction ks arbitrary: t nt tmp)
  case Nil
  then show ?case by simp
next
  case (Cons sa ks)
  show ?case
  proof (cases "MDP_destinations inp sa"; cases "MDP_self_loop inp sa")
    fix dests b
    assume Inr: "MDP_destinations inp sa = Inr dests" and r: "MDP_self_loop inp sa = Inr b"
    show ?thesis
    proof (cases "\<not> b \<and> fst sa \<in> set t")
      case True
      with Cons.prems Inr r
      have run: "MDP_categorize_loop inp all ks (remove1 (fst sa) t) (nt @ [fst sa])
          (temp_loop all dests tmp) = Inr (t', nt', tmp')"
        by simp
      from True Cons.prems
      have "distinct (remove1 (fst sa) t)" "distinct (nt @ [fst sa])"
        "set (remove1 (fst sa) t) \<inter> set (nt @ [fst sa]) = {}"
        by auto
      from Cons.IH [OF run this] True Cons.prems show ?thesis
        by auto
    next
      case False
      with Cons.prems Inr r
      have run: "MDP_categorize_loop inp all ks t nt (temp_loop all dests tmp)
          = Inr (t', nt', tmp')"
        by auto
      from Cons.IH [OF run] Cons.prems show ?thesis by simp
    qed
  qed (use Cons.prems in simp_all)
qed

lemma MDP_categorize_loop_temp:
  "MDP_categorize_loop inp all ks t nt tmp = Inr (t', nt', tmp')
    \<Longrightarrow> distinct tmp \<Longrightarrow> set tmp \<inter> set all = {}
    \<Longrightarrow> distinct tmp' \<and> set tmp' \<inter> set all = {} \<and> set tmp \<subseteq> set tmp' \<and>
        (\<forall>sa\<in>set ks. \<forall>dests. MDP_destinations inp sa = Inr dests
           \<longrightarrow> set dests - set all \<subseteq> set tmp')"
proof (induction ks arbitrary: t nt tmp)
  case Nil
  then show ?case by simp
next
  case (Cons sa ks)
  show ?case
  proof (cases "MDP_destinations inp sa"; cases "MDP_self_loop inp sa")
    fix dests b
    assume Inr: "MDP_destinations inp sa = Inr dests" and r: "MDP_self_loop inp sa = Inr b"
    from temp_loop_props [OF Cons.prems(2,3), of dests]
    have tl: "distinct (temp_loop all dests tmp)"
      "set (temp_loop all dests tmp) = set tmp \<union> (set dests - set all)"
      by simp_all
    from tl(2) Cons.prems(3) have dj: "set (temp_loop all dests tmp) \<inter> set all = {}"
      by auto
    from Cons.prems(1) Inr r obtain t1 nt1 where
      run: "MDP_categorize_loop inp all ks t1 nt1 (temp_loop all dests tmp)
          = Inr (t', nt', tmp')"
      by (auto split: if_splits)
    from Cons.IH [OF run tl(1) dj] tl(2) Inr r show ?thesis
      by auto
  qed (use Cons.prems in simp_all)
qed

lemma MDP_categorize_loop_terminal:
  "MDP_categorize_loop inp all ks t nt tmp = Inr (t', nt', tmp')
    \<Longrightarrow> distinct t
    \<Longrightarrow> set t' = {s \<in> set t. \<forall>sa\<in>set ks. fst sa = s
          \<longrightarrow> MDP_self_loop inp sa = Inr True}"
proof (induction ks arbitrary: t nt tmp)
  case Nil
  then show ?case by simp
next
  case (Cons sa ks)
  show ?case
  proof (cases "MDP_destinations inp sa"; cases "MDP_self_loop inp sa")
    fix dests b
    assume Inr: "MDP_destinations inp sa = Inr dests" and r: "MDP_self_loop inp sa = Inr b"
    show ?thesis
    proof (cases "\<not> b \<and> fst sa \<in> set t")
      case True
      with Cons.prems Inr r
      have run: "MDP_categorize_loop inp all ks (remove1 (fst sa) t) (nt @ [fst sa])
          (temp_loop all dests tmp) = Inr (t', nt', tmp')"
        by simp
      from Cons.prems have d: "distinct (remove1 (fst sa) t)" by simp
      from Cons.IH [OF run d] True Cons.prems(2) Inr r show ?thesis
        by auto
    next
      case False
      with Cons.prems Inr r
      have run: "MDP_categorize_loop inp all ks t nt (temp_loop all dests tmp)
          = Inr (t', nt', tmp')"
        by auto
      from Cons.IH [OF run Cons.prems(2)] False Inr r show ?thesis
        by auto
    qed
  qed (use Cons.prems in simp_all)
qed

lemma MDP_categorize_states_result:
  assumes "MDP_categorize_states states inp = Inr (states', ts, nts)"
  shows "\<exists>t' tmp'. MDP_categorize_loop inp states (mdp_input_keys inp) states [] []
           = Inr (t', nts, tmp') \<and> states' = states @ tmp' \<and> ts = t' @ tmp'"
  using assms by (auto simp: MDP_categorize_states_def split: sum.splits)

lemma SASTff_assign_loop_Tuple3:
  "SASTff_assign_loop d t ks locals stm rm = Inr (stm', rm')
    \<Longrightarrow> dict_get stm (Tuple3 s a s1) = None \<Longrightarrow> dict_get rm (Tuple3 s a s1) = None
    \<Longrightarrow> dict_get stm' (Tuple3 s a s1) = None \<and> dict_get rm' (Tuple3 s a s1) = None"
proof (induction ks arbitrary: locals stm rm)
  case Nil
  then show ?case by simp
next
  case (Cons k ks)
  from Cons.prems show ?case
    by (auto simp: dict_get_update split: if_splits option.splits sum.splits prod.splits
        dest!: Cons.IH)
qed

lemma SATSff_assign_loop_Tuple3:
  "SATSff_assign_loop d t ks stm rm = Inr (stm', rm')
    \<Longrightarrow> dict_get stm (Tuple3 s a s1) = None \<Longrightarrow> dict_get rm (Tuple3 s a s1) = None
    \<Longrightarrow> dict_get stm' (Tuple3 s a s1) = None \<and> dict_get rm' (Tuple3 s a s1) = None"
proof (induction ks arbitrary: stm rm)
  case Nil
  then show ?case by simp
next
  case (Cons k ks)
  from Cons.prems show ?case
    by (auto simp: dict_get_update split: if_splits option.splits sum.splits prod.splits
        dest!: Cons.IH)
qed

lemma MDP_assign_transition_matrix_Tuple3:
  "MDP_assign_transition_matrix t inp = Inr (stm, rm)
    \<Longrightarrow> dict_get stm (Tuple3 s a s1) = None \<and> dict_get rm (Tuple3 s a s1) = None"
  by (cases inp)
    (auto simp: dict_get_def dest: SASTff_assign_loop_Tuple3 SATSff_assign_loop_Tuple3)

lemma MDP_input_type_keys: "MDP_input_type inp = Inr ti \<Longrightarrow> mdp_input_keys inp \<noteq> []"
  by (cases inp rule: MDP_input_type.cases) (simp_all add: dict_keys_def)

lemma MDP_init_fields:
  assumes "MDP_init inp g = Inr m"
  shows "\<exists>ti states actions.
     MDP_input_type inp = Inr ti \<and>
     MDP_get_all_states_and_actions inp = (states, actions) \<and>
     MDP_categorize_states states inp =
       Inr (all_states m, mdp_terminal_states m, mdp_non_terminal_states m) \<and>
     MDP_assign_transition_matrix (mdp_terminal_states m) inp = Inr (transition_matrix m) \<and>
     all_actions m = actions"
  using assms
  by (auto simp: MDP_init_def split: sum.splits prod.splits)

lemma MDP_init_states:
  assumes "MDP_init inp g = Inr m"
  shows "\<exists>states t' tmp'.
     distinct states \<and> set states = fst ` set (mdp_input_keys inp) \<and>
     MDP_categorize_loop inp states (mdp_input_keys inp) states [] []
       = Inr (t', mdp_non_terminal_states m, tmp') \<and>
     all_states m = states @ tmp' \<and> mdp_terminal_states m = t' @ tmp'"
proof -
  from MDP_init_fields [OF assms] obtain states actions where
    sa: "MDP_get_all_states_and_actions inp = (states, actions)" and
    cat: "MDP_categorize_states states inp =
       Inr (all_states m, mdp_terminal_states m, mdp_non_terminal_states m)"
    by blast
  from sa have "distinct states \<and> set states = fst ` set (mdp_input_keys inp)"
    using states_actions_loop_states [of "mdp_input_keys inp" "[]" "[]" states actions]
    by (simp add: MDP_get_all_states_and_actions_def)
  with MDP_categorize_states_result [OF cat] show ?thesis by blast
qed

lemma MDP_partition:
  assumes "MDP_init inp g = Inr m"
  shows "distinct (mdp_terminal_states m) \<and> distinct (mdp_non_terminal_states m) \<and>
     set (mdp_terminal_states m) \<inter> set (mdp_non_terminal_states m) = {} \<and>
     set (mdp_terminal_states m) \<union> set (mdp_non_terminal_states m) = set (all_states m)"
proof -
  from MDP_init_states [OF assms] obtain states t' tmp' where
    d: "distinct states" and
    run: "MDP_categorize_loop inp states (mdp_input_keys inp) states [] []
       = Inr (t', mdp_non_terminal_states m, tmp')" and
    a: "all_states m = states @ tmp'" and t: "mdp_terminal_states m = t' @ tmp'"
    by blast
  from MDP_categorize_loop_partition [OF run d]
  have p: "distinct t'" "distinct (mdp_non_terminal_states m)"
    "set t' \<inter> set (mdp_non_terminal_states m) = {}"
    "set t' \<union> set (mdp_non_terminal_states m) = set states"
    by simp_all
  from MDP_categorize_loop_temp [OF run]
  have q: "distinct tmp'" "set tmp' \<inter> set states = {}" by simp_all
  from p q show ?thesis unfolding a t by auto
qed

lemma mdp_entry_lookup:
  assumes "distinct (mdp_input_keys inp)" and "s1 \<in> set (mdp_input_destinations inp)"
  shows "\<exists>sa\<in>set (mdp_input_keys inp). \<exists>dests. MDP_destinations inp sa = Inr dests \<and> s1 \<in> set dests"
proof (cases inp)
  case (SASTff d)
  with assms(2) obtain k row where kv: "(k, row) \<in> set d" and s1: "s1 \<in> set (dict_keys row)"
    by auto
  from assms(1) SASTff kv have "map_of d k = Some row"
    by (simp add: dict_keys_def)
  with kv s1 SASTff show ?thesis
    by (force simp: dict_get_def dict_keys_def)
next
  case (SATSff d)
  with assms(2) obtain k row where kv: "(k, row) \<in> set d" and s1: "s1 \<in> set (dict_keys (fst row))"
    by auto
  from assms(1) SATSff kv have "map_of d k = Some row"
    by (simp add: dict_keys_def)
  with kv s1 SATSff show ?thesis
    by (force simp: dict_get_def dict_keys_def)
qed

lemma weighted_terms_KeyError:
  "dict_get matrix (Tuple3 s a s1) = None
    \<Longrightarrow> weighted_terms matrix policy s s1 (a # as) = Inl KeyError"
  by (simp add: dict_getitem_def dict_get_def)

lemma MDP_own_key:
  assumes "sa \<in> set (mdp_input_keys inp)"
  shows "\<exists>dests b. MDP_destinations inp sa = Inr dests \<and> MDP_self_loop inp sa = Inr b"
proof (cases inp)
  case (SASTff d)
  with assms obtain row where "dict_get d sa = Some row"
    by (cases "dict_get d sa") (auto simp: dict_get_None_iff)
  with SASTff show ?thesis by (auto split: option.splits)
next
  case (SATSff d)
  with assms obtain row where "dict_get d sa = Some row"
    by (cases "dict_get d sa") (auto simp: dict_get_None_iff)
  with SATSff show ?thesis by simp
qed

lemma MDP_categorize_loop_total:
  "set ks \<subseteq> set (mdp_input_keys inp)
    \<Longrightarrow> \<exists>r. MDP_categorize_loop inp all ks t nt tmp = Inr r"
proof (induction ks arbitrary: t nt tmp)
  case Nil
  then show ?case by simp
next
  case (Cons sa ks)
  from Cons.prems MDP_own_key [of sa inp] obtain dests b where
    e: "MDP_destinations inp sa = Inr dests" "MDP_self_loop inp sa = Inr b"
    by auto
  from Cons.prems have sub: "set ks \<subseteq> set (mdp_input_keys inp)" by simp
  from Cons.IH [OF sub] e show ?case by simp
qed

lemma MDP_categorize_states_total:
  "\<exists>r. MDP_categorize_states states inp = Inr r"
proof -
  from MDP_categorize_loop_total [of "mdp_input_keys inp" inp states states "[]" "[]"]
  obtain r where "MDP_categorize_loop inp states (mdp_input_keys inp) states [] [] = Inr r"
    by auto
  then show ?thesis
    by (cases r) (simp add: MDP_categorize_states_def)
qed

lemma SATSff_assign_loop_sources:
  "SATSff_assign_loop d t ks stm rm = Inr (stm', rm')
    \<Longrightarrow> set (dict_keys stm') \<union> set (dict_keys rm')
        \<subseteq> set (dict_keys stm) \<union> set (dict_keys rm) \<union> {Tuple2 s a | s a. s \<notin> set t}"
proof (induction ks arbitrary: stm rm)
  case Nil
  then show ?case by auto
next
  case (Cons k ks)
  show ?case
  proof (cases "fst k \<notin> set t")
    case True
    with Cons.prems obtain row where row: "dict_get d k = Some row"
      by (cases "dict_get d k") simp_all
    from Cons.prems True row
    have "SATSff_assign_loop d t ks (dict_update stm (Tuple2 (fst k) (snd k)) (fst row))
        (dict_update rm (Tuple2 (fst k) (snd k))
          (STSff_reward_loop (snd row) (dict_keys (fst row)) [])) = Inr (stm', rm')"
      by simp
    from Cons.IH [OF this] True show ?thesis
      by (auto simp: dict_keys_update)
  next
    case False
    with Cons.prems have "SATSff_assign_loop d t ks stm rm = Inr (stm', rm')" by simp
    from Cons.IH [OF this] show ?thesis .
  qed
qed

lemma MDP_SATSff_terminal_no_source_key:
  assumes "MDP_init (SATSff d) g = Inr m" and "s \<in> set (mdp_terminal_states m)"
  shows "Tuple2 s a \<notin> set (dict_keys (fst (transition_matrix m))) \<and>
         Tuple2 s a \<notin> set (dict_keys (snd (transition_matrix m)))"
proof -
  from MDP_init_fields [OF assms(1)]
  have "MDP_assign_transition_matrix (mdp_terminal_states m) (SATSff d)
      = Inr (fst (transition_matrix m), snd (transition_matrix m))"
    by auto
  then have "SATSff_assign_loop d (mdp_terminal_states m) (dict_keys d) [] []
      = Inr (fst (transition_matrix m), snd (transition_matrix m))"
    by simp
  from SATSff_assign_loop_sources [OF this] assms(2) show ?thesis
    by auto
qed

section \<open>The claims\<close>

text \<open>
  C1 (get_mrp returns, for every pair \<open>(s, s')\<close> of states, the policy-weighted sums of
  \<open>P(s,a,s')\<close> and \<open>R(s,a,s')\<close> over the actions, and completes without raising). The code
  does not get that far. Every constructed MDP has at least one state and one action,
  its matrices hold 2-tuple keys only, and \<^verbatim>\<open>get_mrp\<close> subscripts them with a 3-tuple:
  on every constructed MDP and with every policy the call raises \<^verbatim>\<open>KeyError\<close>, before
  the policy is asked anything.
\<close>

theorem get_mrp_raises_KeyError:
  assumes "MDP_init inp g = Inr m"
  shows "MDP_get_mrp m policy = Inl KeyError"
proof -
  from MDP_init_fields [OF assms] obtain ti states actions where
    ti: "MDP_input_type inp = Inr ti" and
    sa: "MDP_get_all_states_and_actions inp = (states, actions)" and
    cat: "MDP_categorize_states states inp =
       Inr (all_states m, mdp_terminal_states m, mdp_non_terminal_states m)" and
    tm: "MDP_assign_transition_matrix (mdp_terminal_states m) inp = Inr (transition_matrix m)" and
    act: "all_actions m = actions"
    by blast
  from sa MDP_input_type_keys [OF ti] have ne: "states \<noteq> [] \<and> actions \<noteq> []"
    using states_actions_loop_nonempty [of "mdp_input_keys inp" "[]" "[]" states actions]
    by (simp add: MDP_get_all_states_and_actions_def)
  from cat ne have "all_states m \<noteq> []"
    by (auto simp: MDP_categorize_states_def split: sum.splits prod.splits)
  then obtain s ss where ss: "all_states m = s # ss" by (cases "all_states m") auto
  from ne act obtain a as where as: "all_actions m = a # as" by (cases actions) auto
  from tm have "dict_get (fst (transition_matrix m)) (Tuple3 s a s) = None"
    using MDP_assign_transition_matrix_Tuple3 [of "mdp_terminal_states m" inp
        "fst (transition_matrix m)" "snd (transition_matrix m)"] by simp
  then have "weighted_terms (fst (transition_matrix m)) policy s s (all_actions m) = Inl KeyError"
    unfolding as by (rule weighted_terms_KeyError)
  then show ?thesis
    by (simp add: MDP_get_mrp_def ss)
qed

theorem get_mrp_raises_KeyError_witness:
  "(case MDP_init mdp_input1 1 of
      Inl e \<Rightarrow> False
    | Inr m \<Rightarrow> MDP_get_mrp m (\<lambda>s a. Inr (1 / 3)) = Inl KeyError)"
proof -
  have "\<not> isl (MDP_init mdp_input1 1)" by code_simp
  then obtain m where m: "MDP_init mdp_input1 1 = Inr m"
    by (cases "MDP_init mdp_input1 1") auto
  from get_mrp_raises_KeyError [OF m] show ?thesis by (simp add: m)
qed

text \<open>
  C2 (a state of an MDP is terminal iff some declared action keeps it in place with
  probability 1). The code asks this of every declared action, not of some: a state
  of \<^verbatim>\<open>all_states\<close> is terminal iff each key \<open>(s, a)\<close> of the input with that state
  gives the step from \<open>s\<close> to \<open>s\<close> probability exactly 1, which holds of a state that
  has no key at all; every other state of \<^verbatim>\<open>all_states\<close> is non-terminal.
\<close>

theorem MDP_terminal_iff:
  assumes "MDP_init inp g = Inr m" and "s \<in> set (all_states m)"
  shows "(s \<in> set (mdp_terminal_states m) \<longleftrightarrow>
          (\<forall>sa\<in>set (mdp_input_keys inp). fst sa = s \<longrightarrow> MDP_self_loop inp sa = Inr True)) \<and>
         (s \<notin> set (mdp_terminal_states m) \<longleftrightarrow> s \<in> set (mdp_non_terminal_states m))"
proof -
  from MDP_init_states [OF assms(1)] obtain states t' tmp' where
    d: "distinct states" and
    st: "set states = fst ` set (mdp_input_keys inp)" and
    run: "MDP_categorize_loop inp states (mdp_input_keys inp) states [] []
       = Inr (t', mdp_non_terminal_states m, tmp')" and
    a: "all_states m = states @ tmp'" and t: "mdp_terminal_states m = t' @ tmp'"
    by blast
  from MDP_categorize_loop_terminal [OF run d]
  have t': "set t' = {s \<in> set states. \<forall>sa\<in>set (mdp_input_keys inp). fst sa = s
          \<longrightarrow> MDP_self_loop inp sa = Inr True}" .
  from MDP_categorize_loop_temp [OF run]
  have q: "set tmp' \<inter> set states = {}" by simp
  have first: "s \<in> set (mdp_terminal_states m) \<longleftrightarrow>
          (\<forall>sa\<in>set (mdp_input_keys inp). fst sa = s \<longrightarrow> MDP_self_loop inp sa = Inr True)"
  proof (cases "s \<in> set states")
    case True
    with q have "s \<notin> set tmp'" by auto
    with True t' show ?thesis unfolding t by auto
  next
    case False
    with assms(2) a have "s \<in> set tmp'" by auto
    moreover from False st have "\<forall>sa\<in>set (mdp_input_keys inp). fst sa \<noteq> s" by auto
    ultimately show ?thesis unfolding t by auto
  qed
  from MDP_partition [OF assms(1)] assms(2)
  have "s \<notin> set (mdp_terminal_states m) \<longleftrightarrow> s \<in> set (mdp_non_terminal_states m)"
    by auto
  with first show ?thesis by simp
qed

theorem MDP_terminal_iff_witness:
  "(case MDP_init student_mdp 1 of
      Inl e \<Rightarrow> False
    | Inr m \<Rightarrow>
        ''Facebook'' \<in> set (all_states m) \<and>
        ''Facebook'' \<notin> set (mdp_terminal_states m) \<and>
        ''Facebook'' \<in> set (mdp_non_terminal_states m)) \<and>
   MDP_self_loop student_mdp (''Facebook'', ''quit'') = Inr False"
proof -
  have "(case MDP_init student_mdp 1 of
      Inl e \<Rightarrow> False | Inr m \<Rightarrow> ''Facebook'' \<in> set (all_states m))"
    by code_simp
  then obtain m where m: "MDP_init student_mdp 1 = Inr m"
    and a: "''Facebook'' \<in> set (all_states m)"
    by (cases "MDP_init student_mdp 1") auto
  have k: "(''Facebook'', ''quit'') \<in> set (mdp_input_keys student_mdp)" by code_simp
  have q: "MDP_self_loop student_mdp (''Facebook'', ''quit'') = Inr False" by code_simp
  note iff = MDP_terminal_iff [OF m a]
  from iff k q have "''Facebook'' \<notin> set (mdp_terminal_states m)" by fastforce
  with iff a q show ?thesis by (simp add: m)
qed

text \<open>
  In the Student MDP the key \<open>(Facebook, Facebook)\<close> has the destination map
  \<open>{Facebook: 1}\<close>, and yet \<open>Facebook\<close> is non-terminal, because of its other key
  \<open>(Facebook, quit)\<close>; and \<open>Sleep\<close> is terminal with no key of its own. (The
  construction succeeds, so that \<open>projr\<close> is the constructed object.)
\<close>

theorem MDP_terminal_some_action_counterexample:
  "\<not> isl (MDP_init student_mdp 1) \<and>
   ''Facebook'' \<notin> set (mdp_terminal_states (projr (MDP_init student_mdp 1))) \<and>
   ''Facebook'' \<in> set (mdp_non_terminal_states (projr (MDP_init student_mdp 1))) \<and>
   MDP_destinations student_mdp (''Facebook'', ''Facebook'') = Inr [''Facebook''] \<and>
   MDP_self_loop student_mdp (''Facebook'', ''Facebook'') = Inr True \<and>
   ''Sleep'' \<in> set (mdp_terminal_states (projr (MDP_init student_mdp 1))) \<and>
   ''Sleep'' \<notin> set (map fst (mdp_input_keys student_mdp))"
  by code_simp

text \<open>
  C3 (a state that is named only as a destination ends up in the full state set and in
  \<^verbatim>\<open>terminal_states\<close>, for the MRP and the MDP). The MDP does this: every destination
  of an entry that is the state of no key is in \<^verbatim>\<open>all_states\<close> and in
  \<^verbatim>\<open>terminal_states\<close> after construction.
\<close>

theorem MDP_implicit_terminal:
  assumes "MDP_init inp g = Inr m" and "distinct (mdp_input_keys inp)"
    and "s1 \<in> set (mdp_input_destinations inp)" and "s1 \<notin> fst ` set (mdp_input_keys inp)"
  shows "s1 \<in> set (all_states m) \<and> s1 \<in> set (mdp_terminal_states m)"
proof -
  from MDP_init_states [OF assms(1)] obtain states t' tmp' where
    st: "set states = fst ` set (mdp_input_keys inp)" and
    run: "MDP_categorize_loop inp states (mdp_input_keys inp) states [] []
       = Inr (t', mdp_non_terminal_states m, tmp')" and
    a: "all_states m = states @ tmp'" and t: "mdp_terminal_states m = t' @ tmp'"
    by blast
  from mdp_entry_lookup [OF assms(2,3)] obtain sa dests where
    sa: "sa \<in> set (mdp_input_keys inp)" "MDP_destinations inp sa = Inr dests" "s1 \<in> set dests"
    by blast
  from MDP_categorize_loop_temp [OF run] sa have "set dests - set states \<subseteq> set tmp'"
    by auto
  with sa(3) assms(4) st have "s1 \<in> set tmp'" by auto
  then show ?thesis unfolding a t by simp
qed

theorem MDP_implicit_terminal_witness:
  "(case MDP_init student_mdp 1 of
      Inl e \<Rightarrow> False
    | Inr m \<Rightarrow> ''Sleep'' \<in> set (all_states m) \<and> ''Sleep'' \<in> set (mdp_terminal_states m)) \<and>
   ''Sleep'' \<in> set (mdp_input_destinations student_mdp) \<and>
   ''Sleep'' \<notin> fst ` set (mdp_input_keys student_mdp)"
proof -
  have "\<not> isl (MDP_init student_mdp 1)" by code_simp
  then obtain m where m: "MDP_init student_mdp 1 = Inr m"
    by (cases "MDP_init student_mdp 1") auto
  have d: "distinct (mdp_input_keys student_mdp)" by code_simp
  have s: "''Sleep'' \<in> set (mdp_input_destinations student_mdp)" by code_simp
  have n: "''Sleep'' \<notin> fst ` set (mdp_input_keys student_mdp)" by code_simp
  from MDP_implicit_terminal [OF m d s n] s n show ?thesis by (simp add: m)
qed

text \<open>
  The MRP has no such step: its two lists are filled from the keys of the input
  alone. In the MRP with the single entry \<open>1 \<mapsto> {3: (1, 5)}\<close> state 3 is a destination
  and no key, and it is in neither list of the constructed MRP.
\<close>

theorem MRP_implicit_successor_counterexample:
  "3 \<in> set (mrp_input_destinations mrp_fine_open) \<and>
   3 \<notin> set (mrp_input_keys mrp_fine_open) \<and>
   \<not> isl (fst (MRP_init numpy_dim1 mrp_fine_open 1)) \<and>
   terminal_states (projr (fst (MRP_init numpy_dim1 mrp_fine_open 1))) = [] \<and>
   non_terminal_states (projr (fst (MRP_init numpy_dim1 mrp_fine_open 1))) = [1]"
  by code_simp

text \<open>
  C4 (no key with a terminal source state occurs in the matrices after construction).
  The \<open>SASTff\<close> branch of the MDP breaks it: on the second input of the \<^verbatim>\<open>__main__\<close>
  block state 3 is terminal, and both matrices hold the keys \<open>(3, a)\<close> and \<open>(3, b)\<close>,
  with the rows left over from \<open>(2, c)\<close>. (The MRP and the \<open>SATSff\<close> branch of the MDP
  keep such keys out: \<open>MRP_terminal_no_source_key\<close>, \<open>MDP_SATSff_terminal_no_source_key\<close>.)
\<close>

theorem MDP_SASTff_terminal_source_key:
  "\<not> isl (MDP_init mdp_input2 1) \<and>
   mdp_terminal_states (projr (MDP_init mdp_input2 1)) = [3] \<and>
   dict_get (fst (transition_matrix (projr (MDP_init mdp_input2 1)))) (Tuple2 3 ''a'')
     = Some [(1, 1 / 5), (2, 2 / 5), (3, 2 / 5)] \<and>
   dict_get (snd (transition_matrix (projr (MDP_init mdp_input2 1)))) (Tuple2 3 ''b'')
     = Some [(1, - (36 / 5)), (2, - (36 / 5)), (3, - (36 / 5))]"
  by code_simp

text \<open>
  C5 (the two encodings of one process give the same transition matrix, reward matrix
  and value function). In the \<open>STSff\<close> encoding the reward row of the MRP has one entry
  per source key of the input, so the reward matrices of the two encodings differ;
  and when a successor is no source key its reward is lost, so that the value of
  state 1 is 5 in one encoding and 0 in the other.
\<close>

theorem MRP_encodings_differ:
  "map_sum id reward_matrix (fst (MRP_init numpy_dim1 mrp_fine 1)) = Inr [(1, [(2, 5)])] \<and>
   map_sum id reward_matrix (fst (MRP_init numpy_dim1 mrp_shared 1))
     = Inr [(1, [(1, 5), (2, 5)])] \<and>
   map_sum id value_function (fst (MRP_init numpy_dim1 mrp_fine_open 1)) = Inr [(1, 5)] \<and>
   map_sum id value_function (fst (MRP_init numpy_dim1 mrp_shared_open 1)) = Inr [(1, 0)]"
  by code_simp

text \<open>
  C6 (a query with a key that is not stored returns \<^verbatim>\<open>None\<close> and never raises). This
  holds of \<^verbatim>\<open>get_value\<close> and \<^verbatim>\<open>get_expected_reward\<close> on a terminal or an unknown
  state of a constructed MRP, and of \<^verbatim>\<open>query_Pr\<close> on a stored key \<open>(s, a)\<close> with an
  unknown destination. On a pair \<open>(s, a)\<close> that is no key of the transition matrix
  \<^verbatim>\<open>query_Pr\<close> raises \<^verbatim>\<open>AttributeError\<close>.
\<close>

theorem missing_key_queries:
  "(fst (MRP_init la inp g) = Inr m \<and>
      (s \<in> set (terminal_states m) \<or> s \<notin> set (mrp_input_keys inp))
      \<longrightarrow> MRP_get_value m s = None \<and> MRP_get_expected_reward m s = None) \<and>
   (dict_get (fst (transition_matrix mdp)) (Tuple2 src a) = Some row \<and> dest \<notin> set (dict_keys row)
      \<longrightarrow> MDP_query_Pr mdp src a dest = Inr None) \<and>
   (dict_get (fst (transition_matrix mdp)) (Tuple2 src a) = None
      \<longrightarrow> MDP_query_Pr mdp src a dest = Inl AttributeError)"
proof (intro conjI impI)
  assume a: "fst (MRP_init la inp g) = Inr m \<and>
      (s \<in> set (terminal_states m) \<or> s \<notin> set (mrp_input_keys inp))"
  then have m: "fst (MRP_init la inp g) = Inr m" by simp
  from MRP_init_fields [OF m]
  have cat: "MRP_categorize_states inp = Inr (terminal_states m, non_terminal_states m)"
    by simp
  from a MRP_categorize_states_partition(1,2) [OF cat]
  have "s \<notin> set (non_terminal_states m)" by auto
  with MRP_init_keys(3,4) [OF m]
  have "s \<notin> set (dict_keys (reward_function m))" "s \<notin> set (dict_keys (value_function m))"
    by auto
  then show "MRP_get_value m s = None" "MRP_get_expected_reward m s = None"
    by (simp_all add: MRP_get_value_def MRP_get_expected_reward_def dict_get_None_iff)
next
  assume "dict_get (fst (transition_matrix mdp)) (Tuple2 src a) = Some row \<and>
    dest \<notin> set (dict_keys row)"
  then show "MDP_query_Pr mdp src a dest = Inr None"
    by (simp add: MDP_query_Pr_def dict_get_None_iff)
next
  assume "dict_get (fst (transition_matrix mdp)) (Tuple2 src a) = None"
  then show "MDP_query_Pr mdp src a dest = Inl AttributeError"
    by (simp add: MDP_query_Pr_def)
qed

theorem missing_key_queries_witness:
  "(case fst (MRP_init numpy_dim1 mrp_fine 1) of
      Inl e \<Rightarrow> False
    | Inr m \<Rightarrow>
        2 \<in> set (terminal_states m) \<and>
        MRP_get_value m 2 = None \<and> MRP_get_expected_reward m 2 = None) \<and>
   (case MDP_init mdp_input1 1 of
      Inl e \<Rightarrow> False
    | Inr mdp \<Rightarrow>
        MDP_query_Pr mdp 1 ''b'' 1 = Inr None \<and>
        MDP_query_Pr mdp 3 ''a'' 3 = Inl AttributeError)"
proof -
  have "(case fst (MRP_init numpy_dim1 mrp_fine 1) of
      Inl e \<Rightarrow> False | Inr m \<Rightarrow> 2 \<in> set (terminal_states m))"
    by code_simp
  then obtain m where m: "fst (MRP_init numpy_dim1 mrp_fine 1) = Inr m"
    and t: "2 \<in> set (terminal_states m)"
    by (cases "fst (MRP_init numpy_dim1 mrp_fine 1)") auto
  have "(case MDP_init mdp_input1 1 of
      Inl e \<Rightarrow> False
    | Inr mdp \<Rightarrow>
        dict_get (fst (transition_matrix mdp)) (Tuple2 1 ''b'') = Some [(2, 3 / 10), (3, 7 / 10)] \<and>
        dict_get (fst (transition_matrix mdp)) (Tuple2 3 ''a'') = None)"
    by code_simp
  then obtain mdp where mdp: "MDP_init mdp_input1 1 = Inr mdp"
    and k1: "dict_get (fst (transition_matrix mdp)) (Tuple2 1 ''b'')
      = Some [(2, 3 / 10), (3, 7 / 10)]"
    and k2: "dict_get (fst (transition_matrix mdp)) (Tuple2 3 ''a'') = None"
    by (cases "MDP_init mdp_input1 1") auto
  have u: "(1::nat) \<notin> set (dict_keys [(2, 3 / 10 :: real), (3, 7 / 10)])"
    by (simp add: dict_keys_def)
  from missing_key_queries [where la = numpy_dim1 and inp = mrp_fine and g = 1 and m = m
      and s = 2 and mdp = mdp and src = 1 and a = "''b''" and dest = 1
      and row = "[(2, 3 / 10), (3, 7 / 10)]"] m t k1 u
  have a: "MRP_get_value m 2 = None \<and> MRP_get_expected_reward m 2 = None"
    and b: "MDP_query_Pr mdp 1 ''b'' 1 = Inr None"
    by simp_all
  from missing_key_queries [where la = numpy_dim1 and inp = mrp_fine and g = 1 and m = m
      and s = 2 and mdp = mdp and src = 3 and a = "''a''" and dest = 3
      and row = "[]"] k2
  have c: "MDP_query_Pr mdp 3 ''a'' 3 = Inl AttributeError"
    by simp
  from a b c t show ?thesis by (simp add: m mdp)
qed

text \<open>
  On the MDP of the first input of the \<^verbatim>\<open>__main__\<close> block, \<^verbatim>\<open>query_Pr\<close> raises for the
  unknown state 7, and for the declared key \<open>(3, a)\<close>, whose terminal state has no row.
\<close>

theorem query_Pr_missing_key_counterexample:
  "\<not> isl (MDP_init mdp_input1 1) \<and>
   MDP_query_Pr (projr (MDP_init mdp_input1 1)) 7 ''a'' 1 = Inl AttributeError \<and>
   MDP_query_Pr (projr (MDP_init mdp_input1 1)) 3 ''a'' 3 = Inl AttributeError"
  by code_simp

text \<open>
  C7 (a singular Bellman matrix makes the constructor fall back to least squares, with
  a warning, and any other error of the solve propagates). When the construction has
  reached the solve and numpy's solver raises \<open>err\<close>: if \<open>err\<close> is a \<^verbatim>\<open>LinAlgError\<close>
  whose text contains \<^verbatim>\<open>Singular matrix\<close> and the least-squares routine returns, the
  constructor returns the MRP whose value function is the least-squares solution, and
  has printed the warning; if \<open>err\<close> is anything else, the constructor raises \<open>err\<close> and
  has printed no warning.
\<close>

theorem singular_fallback:
  assumes "MRP_input_type inp = Inr ti"
    and "MRP_categorize_states inp = Inr (ts, nts)"
    and "MRP_assign_transition_matrix nts inp = Inr (stm, rm)"
    and "MRP_assign_reward_function stm rm = Inr rf"
    and "P_rows stm nts nts = Inr P"
    and "np_linalg_solve la (bellman_matrix g P) (dict_values rf) = Inl err"
  shows "((\<exists>msg. err = LinAlgError msg \<and> sublist ''Singular matrix'' msg) \<longrightarrow>
            np_linalg_lstsq la (bellman_matrix g P) (dict_values rf) = Inr V \<longrightarrow>
            np_nditer la V = Inr vs \<longrightarrow>
            MRP_init la inp g =
              (Inr \<lparr>type_indicator = ti, gamma = g, terminal_states = ts,
                    non_terminal_states = nts, state_transition_matrix = stm,
                    reward_matrix = rm, reward_function = rf,
                    value_function = dict_of_pairs (zip nts vs) []\<rparr>,
               [singular_warning])) \<and>
         (\<not> (\<exists>msg. err = LinAlgError msg \<and> sublist ''Singular matrix'' msg) \<longrightarrow>
            MRP_init la inp g = (Inl err, []))"
proof (intro conjI impI)
  assume "\<exists>msg. err = LinAlgError msg \<and> sublist ''Singular matrix'' msg"
    and l: "np_linalg_lstsq la (bellman_matrix g P) (dict_values rf) = Inr V"
    and n: "np_nditer la V = Inr vs"
  then obtain msg where e: "err = LinAlgError msg" and sg: "sublist ''Singular matrix'' msg"
    by blast
  from assms(6) e sg l
  have "solve_or_lstsq la (bellman_matrix g P) (dict_values rf) = (Inr V, [singular_warning])"
    by (simp add: solve_or_lstsq_def)
  with assms(5) n
  have "MRP_assign_value_function la g nts stm rf
      = (Inr (dict_of_pairs (zip nts vs) []), [singular_warning])"
    by (simp add: MRP_assign_value_function_def)
  with assms(1-4) show "MRP_init la inp g =
      (Inr \<lparr>type_indicator = ti, gamma = g, terminal_states = ts,
            non_terminal_states = nts, state_transition_matrix = stm,
            reward_matrix = rm, reward_function = rf,
            value_function = dict_of_pairs (zip nts vs) []\<rparr>,
       [singular_warning])"
    unfolding MRP_init_def by (simp del: MRP_assign_transition_matrix.simps)
next
  assume ns: "\<not> (\<exists>msg. err = LinAlgError msg \<and> sublist ''Singular matrix'' msg)"
  with assms(6)
  have "solve_or_lstsq la (bellman_matrix g P) (dict_values rf) = (Inl err, [])"
    by (cases err) (simp_all add: solve_or_lstsq_def)
  with assms(5)
  have "MRP_assign_value_function la g nts stm rf = (Inl err, [])"
    by (simp add: MRP_assign_value_function_def)
  with assms(1-4) show "MRP_init la inp g = (Inl err, [])"
    unfolding MRP_init_def by (simp del: MRP_assign_transition_matrix.simps)
qed

theorem singular_fallback_witness:
  "MRP_init numpy_dim1 mrp_singular 2 =
     (Inr \<lparr>type_indicator = True, gamma = 2, terminal_states = [],
           non_terminal_states = [1],
           state_transition_matrix = [(1, [(1, 1 / 2), (2, 1 / 2)])],
           reward_matrix = [(1, [(1, 1), (2, 1)])], reward_function = [(1, 1)],
           value_function = [(1, 0)]\<rparr>,
      [singular_warning]) \<and>
   MRP_init numpy_out_of_memory mrp_singular 2 = (Inl (OtherError ''MemoryError''), [])"
proof -
  have ti: "MRP_input_type mrp_singular = Inr True" by code_simp
  have cat: "MRP_categorize_states mrp_singular = Inr ([], [1])" by code_simp
  have tm: "MRP_assign_transition_matrix [1] mrp_singular
      = Inr ([(1, [(1, 1 / 2), (2, 1 / 2)])], [(1, [(1, 1), (2, 1)])])"
    by code_simp
  have rf: "MRP_assign_reward_function [(1::nat, [(1, 1 / 2), (2, 1 / 2)])] [(1, [(1, 1), (2, 1)])]
      = Inr [(1, 1)]"
    by code_simp
  have P: "P_rows [(1::nat, [(1, 1 / 2), (2, 1 / 2)])] [1] [1] = Inr [[1 / 2]]"
    by code_simp
  have s1: "np_linalg_solve numpy_dim1 (bellman_matrix 2 [[1 / 2]]) (dict_values [(1::nat, 1)])
      = Inl (LinAlgError ''Singular matrix'')"
    by code_simp
  have l1: "np_linalg_lstsq numpy_dim1 (bellman_matrix 2 [[1 / 2]]) (dict_values [(1::nat, 1)])
      = Inr [0]"
    by code_simp
  have n1: "np_nditer numpy_dim1 [0] = Inr [0]" by code_simp
  have sg: "\<exists>msg. LinAlgError ''Singular matrix'' = LinAlgError msg \<and>
      sublist ''Singular matrix'' msg"
    by simp
  have s2: "np_linalg_solve numpy_out_of_memory (bellman_matrix 2 [[1 / 2]])
      (dict_values [(1::nat, 1)]) = Inl (OtherError ''MemoryError'')"
    by code_simp
  have ns: "\<not> (\<exists>msg. OtherError ''MemoryError'' = LinAlgError msg \<and>
      sublist ''Singular matrix'' msg)"
    by simp
  have z: "dict_of_pairs (zip [1::nat] [0::real]) [] = [(1, 0)]" by code_simp
  from singular_fallback [OF ti cat tm rf P s1, of "[0]" "[0]"] sg l1 n1 z
  have a: "MRP_init numpy_dim1 mrp_singular 2 =
     (Inr \<lparr>type_indicator = True, gamma = 2, terminal_states = [],
           non_terminal_states = [1],
           state_transition_matrix = [(1, [(1, 1 / 2), (2, 1 / 2)])],
           reward_matrix = [(1, [(1, 1), (2, 1)])], reward_function = [(1, 1)],
           value_function = [(1, 0)]\<rparr>,
      [singular_warning])"
    by simp
  from singular_fallback [OF ti cat tm rf P s2] ns
  have b: "MRP_init numpy_out_of_memory mrp_singular 2 = (Inl (OtherError ''MemoryError''), [])"
    by blast
  from a b show ?thesis by (rule conjI)
qed

text \<open>
  C8 (the terminal and the non-terminal states are two disjoint lists without
  duplicates whose union is the full state set). For a constructed MDP this holds, the
  full state set being \<^verbatim>\<open>all_states\<close>. For a constructed MRP the two lists are
  disjoint and without duplicates, and their union is the set of the declared source
  keys of the input (which a dict holds once each): a state that the input names only
  as a destination is in neither list.
\<close>

theorem states_partition:
  "(distinct (mrp_input_keys mrp_in) \<and> fst (MRP_init la mrp_in g) = Inr mrp \<longrightarrow>
      distinct (terminal_states mrp) \<and> distinct (non_terminal_states mrp) \<and>
      set (terminal_states mrp) \<inter> set (non_terminal_states mrp) = {} \<and>
      set (terminal_states mrp) \<union> set (non_terminal_states mrp) = set (mrp_input_keys mrp_in)) \<and>
   (MDP_init mdp_in g' = Inr mdp \<longrightarrow>
      distinct (mdp_terminal_states mdp) \<and> distinct (mdp_non_terminal_states mdp) \<and>
      set (mdp_terminal_states mdp) \<inter> set (mdp_non_terminal_states mdp) = {} \<and>
      set (mdp_terminal_states mdp) \<union> set (mdp_non_terminal_states mdp)
        = set (all_states mdp))"
proof (rule conjI; rule impI)
  assume a: "distinct (mrp_input_keys mrp_in) \<and> fst (MRP_init la mrp_in g) = Inr mrp"
  then have "fst (MRP_init la mrp_in g) = Inr mrp" by simp
  from MRP_init_fields [OF this]
  have cat: "MRP_categorize_states mrp_in
      = Inr (terminal_states mrp, non_terminal_states mrp)"
    by simp
  from MRP_categorize_states_partition [OF cat] a
  show "distinct (terminal_states mrp) \<and> distinct (non_terminal_states mrp) \<and>
      set (terminal_states mrp) \<inter> set (non_terminal_states mrp) = {} \<and>
      set (terminal_states mrp) \<union> set (non_terminal_states mrp) = set (mrp_input_keys mrp_in)"
    by simp
next
  assume "MDP_init mdp_in g' = Inr mdp"
  then show "distinct (mdp_terminal_states mdp) \<and> distinct (mdp_non_terminal_states mdp) \<and>
      set (mdp_terminal_states mdp) \<inter> set (mdp_non_terminal_states mdp) = {} \<and>
      set (mdp_terminal_states mdp) \<union> set (mdp_non_terminal_states mdp)
        = set (all_states mdp)"
    by (rule MDP_partition)
qed

theorem states_partition_witness:
  "(case fst (MRP_init numpy_dim1 mrp_fine 1) of
      Inl e \<Rightarrow> False
    | Inr mrp \<Rightarrow>
        distinct (terminal_states mrp) \<and> distinct (non_terminal_states mrp) \<and>
        set (terminal_states mrp) \<inter> set (non_terminal_states mrp) = {} \<and>
        set (terminal_states mrp) \<union> set (non_terminal_states mrp) = {1, 2}) \<and>
   (case MDP_init student_mdp 1 of
      Inl e \<Rightarrow> False
    | Inr mdp \<Rightarrow>
        distinct (mdp_terminal_states mdp) \<and> distinct (mdp_non_terminal_states mdp) \<and>
        set (mdp_terminal_states mdp) \<inter> set (mdp_non_terminal_states mdp) = {} \<and>
        set (mdp_terminal_states mdp) \<union> set (mdp_non_terminal_states mdp)
          = set (all_states mdp))"
proof -
  have "\<not> isl (fst (MRP_init numpy_dim1 mrp_fine 1))" by code_simp
  then obtain mrp where mrp: "fst (MRP_init numpy_dim1 mrp_fine 1) = Inr mrp"
    by (cases "fst (MRP_init numpy_dim1 mrp_fine 1)") auto
  have "\<not> isl (MDP_init student_mdp 1)" by code_simp
  then obtain mdp where mdp: "MDP_init student_mdp 1 = Inr mdp"
    by (cases "MDP_init student_mdp 1") auto
  have d: "distinct (mrp_input_keys mrp_fine)" by code_simp
  have k: "set (mrp_input_keys mrp_fine) = {1, 2}"
    by (auto simp: mrp_fine_def dict_keys_def)
  from states_partition [where mrp_in = mrp_fine and la = numpy_dim1 and g = 1 and mrp = mrp
      and mdp_in = student_mdp and g' = 1 and mdp = mdp] mrp mdp d k
  show ?thesis by simp
qed

text \<open>
  The union of the two lists of an MRP is not the full state set of the process: in the
  MRP with the single entry \<open>1 \<mapsto> {3: (1, 5)}\<close> the process has the states 1 and 3,
  and the two lists of the constructed MRP hold state 1 alone.
\<close>

theorem MRP_partition_misses_successor_counterexample:
  "\<not> isl (fst (MRP_init numpy_dim1 mrp_fine_open 1)) \<and>
   set (mrp_input_keys mrp_fine_open) \<union> set (mrp_input_destinations mrp_fine_open) = {1, 3} \<and>
   set (terminal_states (projr (fst (MRP_init numpy_dim1 mrp_fine_open 1)))) \<union>
     set (non_terminal_states (projr (fst (MRP_init numpy_dim1 mrp_fine_open 1)))) = {1} \<and>
   3 \<notin> set (terminal_states (projr (fst (MRP_init numpy_dim1 mrp_fine_open 1)))) \<union>
     set (non_terminal_states (projr (fst (MRP_init numpy_dim1 mrp_fine_open 1))))"
proof -
  have "\<not> isl (fst (MRP_init numpy_dim1 mrp_fine_open 1)) \<and>
      terminal_states (projr (fst (MRP_init numpy_dim1 mrp_fine_open 1))) = [] \<and>
      non_terminal_states (projr (fst (MRP_init numpy_dim1 mrp_fine_open 1))) = [1]"
    by code_simp
  moreover have "set (mrp_input_keys mrp_fine_open) \<union>
      set (mrp_input_destinations mrp_fine_open) = {1, 3}"
    by (auto simp: mrp_fine_open_def dict_keys_def)
  ultimately show ?thesis by simp
qed

text \<open>
  C9 (from a terminal start the sampler returns the one-state trajectory and the return
  0). The loop is not entered, whatever the source of draws.
\<close>

theorem get_random_sample_terminal:
  assumes "fst (MRP_init la inp g) = Inr m" and "s \<in> set (terminal_states m)"
  shows "MRP_get_random_sample rnd m (Some s) = Some (Inr ([s], 0))"
proof -
  from MRP_init_fields [OF assms(1)]
  have "MRP_categorize_states inp = Inr (terminal_states m, non_terminal_states m)" by simp
  from MRP_categorize_states_partition(1) [OF this] assms(2)
  have "s \<notin> set (non_terminal_states m)" by auto
  then show ?thesis
    by (simp add: MRP_get_random_sample_def sample_loop_terminal)
qed

theorem get_random_sample_terminal_witness:
  "(case fst (MRP_init numpy_dim1 mrp_fine 1) of
      Inl e \<Rightarrow> False
    | Inr m \<Rightarrow>
        2 \<in> set (terminal_states m) \<and>
        MRP_get_random_sample first_choice m (Some 2) = Some (Inr ([2], 0)))"
proof -
  have "(case fst (MRP_init numpy_dim1 mrp_fine 1) of
      Inl e \<Rightarrow> False | Inr m \<Rightarrow> 2 \<in> set (terminal_states m))"
    by code_simp
  then obtain m where m: "fst (MRP_init numpy_dim1 mrp_fine 1) = Inr m"
    and t: "2 \<in> set (terminal_states m)"
    by (cases "fst (MRP_init numpy_dim1 mrp_fine 1)") auto
  from get_random_sample_terminal [OF m t, of first_choice] t show ?thesis
    by (simp add: m)
qed

text \<open>
  C10 (the constructor of the MDP fails on every \<open>SASTff\<close> input whose first key has a
  terminal source state). The first key then skips the assignments to \<^verbatim>\<open>state_value\<close>
  and \<^verbatim>\<open>reward_value\<close>, and the \<^verbatim>\<open>update\<close> after the \<^verbatim>\<open>if\<close> reads a local variable
  that was never bound. (The classification itself never raises:
  \<open>MDP_categorize_states_total\<close>.)
\<close>

theorem MDP_init_UnboundLocalError:
  assumes "MDP_categorize_states
             (fst (MDP_get_all_states_and_actions (SASTff ((sa, row) # d))))
             (SASTff ((sa, row) # d)) = Inr (states', ts, nts)"
    and "fst sa \<in> set ts"
  shows "MDP_init (SASTff ((sa, row) # d)) discount_factor = Inl UnboundLocalError"
proof -
  obtain states actions where
    sa: "MDP_get_all_states_and_actions (SASTff ((sa, row) # d)) = (states, actions)"
    by (cases "MDP_get_all_states_and_actions (SASTff ((sa, row) # d))")
  from assms(1) sa
  have cat: "MDP_categorize_states states (SASTff ((sa, row) # d)) = Inr (states', ts, nts)"
    by simp
  from assms(2)
  have tm: "MDP_assign_transition_matrix ts (SASTff ((sa, row) # d)) = Inl UnboundLocalError"
    by (simp add: dict_keys_def)
  show ?thesis
    unfolding MDP_init_def
    by (simp add: sa cat tm del: MDP_assign_transition_matrix.simps)
qed

theorem MDP_init_UnboundLocalError_witness:
  "MDP_init (SASTff [((3::nat, ''a''), [(3, (1, 0))]), ((1, ''a''), [(3, (1, 2))])]) 1
     = Inl UnboundLocalError"
proof -
  have c: "MDP_categorize_states
      (fst (MDP_get_all_states_and_actions
        (SASTff (((3::nat, ''a''), [(3, (1, 0))]) # [((1, ''a''), [(3, (1, 2))])]))))
      (SASTff (((3, ''a''), [(3, (1, 0))]) # [((1, ''a''), [(3, (1, 2))])]))
      = Inr ([3, 1], [3], [1])"
    by code_simp
  have t: "fst (3::nat, ''a'') \<in> set [3]" by simp
  from MDP_init_UnboundLocalError [OF c t] show ?thesis .
qed

end
